theory Spec2Isabelle
  imports Complex_Main "HOL-Library.Multiset"
begin

section \<open>idea-mill: values, arrays and the sampler\<close>

text \<open>
  The program is the command-line version of \<^verbatim>\<open>idea-mill.js\<close> (the second of the two
  versions in the source file). Numbers are JavaScript doubles: a finite double is taken
  by its exact rational value, the two infinities and \<open>NaN\<close> are values of their own.
  Not every rational is a double; what is proved below for every rational holds for the
  doubles among them. Negative zero is not told apart from zero: the program never
  divides by a number, and both print as \<^verbatim>\<open>0\<close>, are falsy and compare equal.
\<close>

datatype jsnum = Num rat | PInf | NInf | NaN

datatype json =
    JNull
  | JBool bool
  | JNum jsnum
  | JStr string
  | JArr "json list"
  | JObj "(string \<times> json) list"

subsection \<open>Array.prototype.sort and slice\<close>

text \<open>
  \<^verbatim>\<open>xs.sort(cmp)\<close> is stable (ECMAScript 2019) and, for a comparator that is a
  consistent ordering, returns the one stable sorted arrangement; which algorithm the
  engine runs cannot be observed. The model is the stable insertion sort: an element goes
  in front of the first later element \<open>y\<close> with \<open>cmp x y \<le> 0\<close>.
\<close>

primrec insort_by :: "('a \<Rightarrow> 'a \<Rightarrow> rat) \<Rightarrow> 'a \<Rightarrow> 'a list \<Rightarrow> 'a list" where
  "insort_by cmp x [] = [x]"
| "insort_by cmp x (y # ys) =
     (if cmp x y \<le> 0 then x # y # ys else y # insort_by cmp x ys)"

definition js_sort :: "('a \<Rightarrow> 'a \<Rightarrow> rat) \<Rightarrow> 'a list \<Rightarrow> 'a list" where
  "js_sort cmp xs = foldr (insort_by cmp) xs []"

text \<open>
  \<^verbatim>\<open>xs.slice(0, k)\<close> for an integer \<open>k\<close>: a negative end counts from the end of the
  array (and stops at 0), an end beyond the length stops at the length.
\<close>

definition slice0 :: "'a list \<Rightarrow> int \<Rightarrow> 'a list" where
  "slice0 xs k =
     (if k < 0 then take (nat (int (length xs) + k)) xs else take (nat k) xs)"

subsection \<open>sample\<close>

text \<open>
  \<^verbatim>\<open>
  const sample = (arr, k) =>
    arr
      .map(v => ({ v, r: Math.random() }))
      .sort((a, b) => a.r - b.r)
      .slice(0, k)
      .map(o => o.v);
  \<close>
  \<open>rnd i\<close> is the value the \<open>i\<close>-th call of \<^verbatim>\<open>Math.random\<close> returns; \<open>map\<close> calls it once
  for each element, in order. \<open>k\<close> is \<^verbatim>\<open>config.samples\<close>, the result of \<^verbatim>\<open>parseInt\<close>,
  an integer of either sign.
\<close>

definition tag_random :: "(nat \<Rightarrow> rat) \<Rightarrow> 'a list \<Rightarrow> ('a \<times> rat) list" where
  "tag_random rnd arr = zip arr (map rnd [0..<length arr])"

definition by_r :: "'a \<times> rat \<Rightarrow> 'a \<times> rat \<Rightarrow> rat" where
  "by_r a b = snd a - snd b"

definition sample :: "(nat \<Rightarrow> rat) \<Rightarrow> 'a list \<Rightarrow> int \<Rightarrow> 'a list" where
  "sample rnd arr k = map fst (slice0 (js_sort by_r (tag_random rnd arr)) k)"

text \<open>The positions of the source list that \<open>sample\<close> reads, in the order of the result.\<close>

definition positions :: "(nat \<Rightarrow> rat) \<Rightarrow> nat \<Rightarrow> int \<Rightarrow> nat list" where
  "positions rnd n k = slice0 (js_sort (\<lambda>i j. rnd i - rnd j) [0..<n]) k"

subsection \<open>sample on a store of arrays\<close>

text \<open>
  Arrays are objects: \<open>map\<close> and \<open>slice\<close> allocate a new array, \<open>sort\<close> rearranges the
  array it is called on and returns that same array. The store is the list of allocated
  arrays, an address is an index into it, and allocation appends.
\<close>

datatype 'a cell = Vals "'a list" | Tagged "('a \<times> rat) list"

type_synonym 'a store = "'a cell list"

definition alloc :: "'a store \<Rightarrow> 'a cell \<Rightarrow> nat \<times> 'a store" where
  "alloc h c = (length h, h @ [c])"

definition sort_in_place :: "'a store \<Rightarrow> nat \<Rightarrow> 'a store" where
  "sort_in_place h a =
     (if a < length h
      then (case h ! a of Tagged ps \<Rightarrow> h[a := Tagged (js_sort by_r ps)] | Vals xs \<Rightarrow> h)
      else h)"

definition sample_st :: "(nat \<Rightarrow> rat) \<Rightarrow> 'a store \<Rightarrow> nat \<Rightarrow> int \<Rightarrow> (nat \<times> 'a store) option" where
  "sample_st rnd h arr k =
     (if arr < length h then
        (case h ! arr of
           Vals xs \<Rightarrow>
             let (a1, h1) = alloc h (Tagged (tag_random rnd xs));
                 h2 = sort_in_place h1 a1;
                 (a2, h3) = alloc h2 (case h2 ! a1 of Tagged ps \<Rightarrow> Tagged (slice0 ps k) | c \<Rightarrow> c);
                 (a3, h4) = alloc h3 (case h3 ! a2 of Tagged ps \<Rightarrow> Vals (map fst ps) | c \<Rightarrow> c)
             in Some (a3, h4)
         | Tagged ps \<Rightarrow> None)
      else None)"

subsection \<open>Arithmetic of doubles\<close>

text \<open>
  \<^verbatim>\<open>x + y\<close> and \<^verbatim>\<open>x - y\<close> on doubles are the exact sum and difference rounded to the
  nearest double, ties to the even significand (IEEE 754 binary64). For \<open>q > 0\<close>,
  \<open>binade q\<close> is the exponent \<open>e\<close> with \<open>2 powi e \<le> q < 2 powi (e + 1)\<close>. A double has 53
  significant bits, so the doubles next to \<open>q\<close> are the multiples of
  \<open>2 powi (binade q - 52)\<close>, and of \<open>2 powi (- 1074)\<close> when \<open>q\<close> is below the smallest normal
  number \<open>2 powi (- 1022)\<close>. A result that is \<open>2 ^ 1024\<close> or more after rounding is an
  infinity.
\<close>

function lg_up :: "rat \<Rightarrow> int" where
  "lg_up q = (if 2 \<le> q then lg_up (q / 2) + 1 else 0)"
  by pat_completeness auto
termination
proof (relation "measure (\<lambda>q. nat \<lfloor>q\<rfloor>)")
  show "wf (measure (\<lambda>q::rat. nat \<lfloor>q\<rfloor>))"
    by (rule wf_measure)
next
  fix q :: rat
  assume q: "2 \<le> q"
  define n where "n = \<lfloor>q\<rfloor>"
  have "2 \<le> n"
    using q by (simp add: n_def le_floor_iff)
  then have n: "(2::rat) \<le> of_int n"
    by simp
  have "q < of_int n + 1"
    unfolding n_def by linarith
  with n have "q / 2 < of_int n"
    by linarith
  then have "\<lfloor>q / 2\<rfloor> < n"
    by (simp only: floor_less_iff)
  with \<open>2 \<le> n\<close> have "nat \<lfloor>q / 2\<rfloor> < nat n"
    by linarith
  then show "(q / 2, q) \<in> measure (\<lambda>q. nat \<lfloor>q\<rfloor>)"
    by (simp only: in_measure n_def)
qed

function lg_down :: "rat \<Rightarrow> int" where
  "lg_down q = (if 0 < q \<and> q < 1 then lg_down (2 * q) - 1 else 0)"
  by pat_completeness auto
termination
proof (relation "measure (\<lambda>q. nat \<lfloor>1 / q\<rfloor>)")
  show "wf (measure (\<lambda>q::rat. nat \<lfloor>1 / q\<rfloor>))"
    by (rule wf_measure)
next
  fix q :: rat
  assume "0 < q \<and> q < 1"
  define x where "x = 1 / q"
  from \<open>0 < q \<and> q < 1\<close> have x: "1 < x"
    by (simp add: x_def)
  define n where "n = \<lfloor>x\<rfloor>"
  have "1 \<le> n"
    using x by (simp add: n_def le_floor_iff)
  then have n: "(1::rat) \<le> of_int n"
    by simp
  have "x < of_int n + 1"
    unfolding n_def by linarith
  with n have "x / 2 < of_int n"
    by linarith
  then have "\<lfloor>x / 2\<rfloor> < n"
    by (simp only: floor_less_iff)
  moreover have "x / 2 = 1 / (2 * q)"
    by (simp add: x_def)
  ultimately have "\<lfloor>1 / (2 * q)\<rfloor> < n"
    by (simp only:)
  with \<open>1 \<le> n\<close> have "nat \<lfloor>1 / (2 * q)\<rfloor> < nat n"
    by linarith
  then show "(2 * q, q) \<in> measure (\<lambda>q. nat \<lfloor>1 / q\<rfloor>)"
    by (simp only: in_measure n_def x_def)
qed

declare lg_up.simps [simp del] lg_down.simps [simp del]

definition binade :: "rat \<Rightarrow> int" where
  "binade q = (if 1 \<le> q then lg_up q else lg_down q)"

text \<open>The nearest integer, a tie going to the even one.\<close>

definition rne :: "rat \<Rightarrow> int" where
  "rne x =
     (let f = \<lfloor>x\<rfloor>; d = x - of_int f
      in if d < 1 / 2 then f else if 1 / 2 < d then f + 1 else if even f then f else f + 1)"

definition ulp_exponent :: "rat \<Rightarrow> int" where
  "ulp_exponent a = max (binade a) (- 1022) - 52"

definition overflow :: rat where
  "overflow = 2 ^ 1024"

definition nearest :: "rat \<Rightarrow> rat" where
  "nearest a = of_int (rne (a / 2 powi ulp_exponent a)) * 2 powi ulp_exponent a"

definition round_double :: "rat \<Rightarrow> jsnum" where
  "round_double q =
     (if q = 0 then Num 0
      else if 0 < q then (if overflow \<le> nearest q then PInf else Num (nearest q))
      else (if overflow \<le> nearest (- q) then NInf else Num (- nearest (- q))))"

fun num_add :: "jsnum \<Rightarrow> jsnum \<Rightarrow> jsnum" where
  "num_add (Num a) (Num b) = round_double (a + b)"
| "num_add NaN b = NaN"
| "num_add a NaN = NaN"
| "num_add PInf NInf = NaN"
| "num_add NInf PInf = NaN"
| "num_add PInf b = PInf"
| "num_add a PInf = PInf"
| "num_add NInf b = NInf"
| "num_add a NInf = NInf"

fun neg :: "jsnum \<Rightarrow> jsnum" where
  "neg (Num a) = Num (- a)"
| "neg PInf = NInf"
| "neg NInf = PInf"
| "neg NaN = NaN"

definition num_sub :: "jsnum \<Rightarrow> jsnum \<Rightarrow> jsnum" where
  "num_sub a b = num_add a (neg b)"

text \<open>
  \<^verbatim>\<open>sort\<close> reads the sign of the comparator's result, and a result \<open>NaN\<close> as \<open>+0\<close>.
\<close>

fun sort_order :: "jsnum \<Rightarrow> rat" where
  "sort_order (Num q) = q"
| "sort_order PInf = 1"
| "sort_order NInf = - 1"
| "sort_order NaN = 0"

section \<open>The response ranker\<close>

subsection \<open>Values as the ranker reads them\<close>

record js_error =
  name :: string
  message :: string
  code :: "string option"

text \<open>
  \<open>get v k\<close> is \<^verbatim>\<open>v.k\<close> for a value \<open>v\<close> other than \<^verbatim>\<open>null\<close>; \<open>None\<close> is
  \<^verbatim>\<open>undefined\<close>. An object is the list of its keys and values as \<^verbatim>\<open>JSON.parse\<close>
  built it. On a string, number, boolean or array the keys the program reads
  (\<^verbatim>\<open>ideas\<close>, \<^verbatim>\<open>results\<close>, \<^verbatim>\<open>result\<close>, \<^verbatim>\<open>idea\<close>, \<^verbatim>\<open>relevance\<close>, \<^verbatim>\<open>plausibility\<close>,
  \<^verbatim>\<open>reasoning\<close>) are not defined. Reading a property of \<^verbatim>\<open>null\<close> raises a TypeError,
  which is written out where the program does it.
\<close>

fun get :: "json \<Rightarrow> string \<Rightarrow> json option" where
  "get (JObj kvs) k = map_of kvs k"
| "get v k = None"

fun truthy :: "json option \<Rightarrow> bool" where
  "truthy None = False"
| "truthy (Some JNull) = False"
| "truthy (Some (JBool b)) = b"
| "truthy (Some (JNum (Num q))) = (q \<noteq> 0)"
| "truthy (Some (JNum NaN)) = False"
| "truthy (Some (JNum n)) = True"
| "truthy (Some (JStr s)) = (s \<noteq> [])"
| "truthy (Some (JArr xs)) = True"
| "truthy (Some (JObj kvs)) = True"

fun isArray :: "json option \<Rightarrow> bool" where
  "isArray (Some (JArr xs)) = True"
| "isArray v = False"

fun typeof :: "json option \<Rightarrow> string" where
  "typeof None = ''undefined''"
| "typeof (Some JNull) = ''object''"
| "typeof (Some (JBool b)) = ''boolean''"
| "typeof (Some (JNum n)) = ''number''"
| "typeof (Some (JStr s)) = ''string''"
| "typeof (Some (JArr xs)) = ''object''"
| "typeof (Some (JObj kvs)) = ''object''"

fun elements :: "json option \<Rightarrow> json list" where
  "elements (Some (JArr xs)) = xs"
| "elements v = []"

text \<open>
  \<open>number\<close> reads an operand of \<^verbatim>\<open>+\<close>; the program adds only fields that the filter has
  found to be numbers, so the other operand types of \<^verbatim>\<open>+\<close> are not modelled and stand
  as \<open>NaN\<close>. \<^verbatim>\<open>isNaN\<close> is applied to numbers only, for the same reason.
\<close>

fun number :: "json option \<Rightarrow> jsnum" where
  "number (Some (JNum n)) = n"
| "number v = NaN"

fun isNaN :: "json option \<Rightarrow> bool" where
  "isNaN (Some (JNum NaN)) = True"
| "isNaN (Some (JNum n)) = False"
| "isNaN v = True"

subsection \<open>Conversion to strings\<close>

text \<open>
  The string of a value in a template literal, and \<^verbatim>\<open>xs.join(sep)\<close>. The string of a
  finite number is the runtime's (\<open>ns\<close>, the shortest decimal that reads back as the same
  double). An array is its elements joined with commas, \<^verbatim>\<open>null\<close> elements as empty
  strings. An object is converted by its \<^verbatim>\<open>toString\<close> property: without a key of that
  name it is the inherited method, which gives \<^verbatim>\<open>[object Object]\<close>; with such a key the
  property is a parsed value, which cannot be called, \<^verbatim>\<open>valueOf\<close> gives no primitive
  either, and the conversion raises a TypeError (the message is V8's). The elements are
  converted from left to right, so the first error is the one raised.
\<close>

fun intercalate :: "string \<Rightarrow> string list \<Rightarrow> string" where
  "intercalate sep [] = []"
| "intercalate sep [s] = s"
| "intercalate sep (s # t # ts) = s @ sep @ intercalate sep (t # ts)"

fun collect :: "('e + 'a) list \<Rightarrow> 'e + 'a list" where
  "collect [] = Inr []"
| "collect (Inl e # rs) = Inl e"
| "collect (Inr x # rs) = (case collect rs of Inl e \<Rightarrow> Inl e | Inr xs \<Rightarrow> Inr (x # xs))"

definition to_primitive_error :: js_error where
  "to_primitive_error =
     \<lparr>name = ''TypeError'', message = ''Cannot convert object to primitive value'', code = None\<rparr>"

fun to_string :: "(rat \<Rightarrow> string) \<Rightarrow> json \<Rightarrow> js_error + string" where
  "to_string ns JNull = Inr ''null''"
| "to_string ns (JBool b) = Inr (if b then ''true'' else ''false'')"
| "to_string ns (JNum (Num q)) = Inr (ns q)"
| "to_string ns (JNum PInf) = Inr ''Infinity''"
| "to_string ns (JNum NInf) = Inr ''-Infinity''"
| "to_string ns (JNum NaN) = Inr ''NaN''"
| "to_string ns (JStr s) = Inr s"
| "to_string ns (JArr xs) =
     (case collect (map (\<lambda>x. if x = JNull then Inr [] else to_string ns x) xs) of
        Inl e \<Rightarrow> Inl e
      | Inr ss \<Rightarrow> Inr (intercalate '','' ss))"
| "to_string ns (JObj kvs) =
     (if map_of kvs ''toString'' = None then Inr ''[object Object]''
      else Inl to_primitive_error)"

definition string_of :: "(rat \<Rightarrow> string) \<Rightarrow> json option \<Rightarrow> js_error + string" where
  "string_of ns v = (case v of None \<Rightarrow> Inr ''undefined'' | Some x \<Rightarrow> to_string ns x)"

definition join :: "(rat \<Rightarrow> string) \<Rightarrow> string \<Rightarrow> json list \<Rightarrow> js_error + string" where
  "join ns sep xs =
     (case collect (map (\<lambda>x. if x = JNull then Inr [] else to_string ns x) xs) of
        Inl e \<Rightarrow> Inl e
      | Inr ss \<Rightarrow> Inr (intercalate sep ss))"

text \<open>
  The values whose conversion raises: an object with its own key \<^verbatim>\<open>toString\<close>, and an
  array with such an element.
\<close>

fun unprintable :: "json \<Rightarrow> bool" where
  "unprintable (JObj kvs) = (map_of kvs ''toString'' \<noteq> None)"
| "unprintable (JArr xs) = list_ex unprintable xs"
| "unprintable v = False"

subsection \<open>The steps of the ranking block\<close>

text \<open>
  \<^verbatim>\<open>
  if (Array.isArray(parsed)) {
    ideasArray = parsed;
  } else if (parsed.ideas && Array.isArray(parsed.ideas)) {
    ideasArray = parsed.ideas;
  } else if (parsed.results && Array.isArray(parsed.results)) {
    ideasArray = parsed.results;
  } else if (parsed.result && Array.isArray(parsed.result)) {
    ideasArray = parsed.result;
  } else {
    ideasArray = [parsed];
  }
  \<close>
  For \<^verbatim>\<open>parsed = null\<close> the first test is false and the second reads \<^verbatim>\<open>null.ideas\<close>,
  which raises the TypeError below (the message is V8's).
\<close>

definition null_property_error :: "string \<Rightarrow> js_error" where
  "null_property_error k =
     \<lparr>name = ''TypeError'',
      message = ''Cannot read properties of null (reading '' @ [CHR 0x27] @ k @ [CHR 0x27] @ '')'',
      code = None\<rparr>"

definition ideasArray :: "json \<Rightarrow> js_error + json list" where
  "ideasArray parsed =
     (if isArray (Some parsed) then Inr (elements (Some parsed))
      else if parsed = JNull then Inl (null_property_error ''ideas'')
      else if truthy (get parsed ''ideas'') \<and> isArray (get parsed ''ideas'')
        then Inr (elements (get parsed ''ideas''))
      else if truthy (get parsed ''results'') \<and> isArray (get parsed ''results'')
        then Inr (elements (get parsed ''results''))
      else if truthy (get parsed ''result'') \<and> isArray (get parsed ''result'')
        then Inr (elements (get parsed ''result''))
      else Inr [parsed])"

text \<open>
  \<^verbatim>\<open>
  item => item &&
    typeof item.idea === 'string' &&
    typeof item.relevance === 'number' &&
    typeof item.plausibility === 'number' &&
    !isNaN(item.relevance) &&
    !isNaN(item.plausibility)
  \<close>
\<close>

definition valid_item :: "json \<Rightarrow> bool" where
  "valid_item item \<longleftrightarrow>
     truthy (Some item) \<and>
     typeof (get item ''idea'') = ''string'' \<and>
     typeof (get item ''relevance'') = ''number'' \<and>
     typeof (get item ''plausibility'') = ''number'' \<and>
     \<not> isNaN (get item ''relevance'') \<and>
     \<not> isNaN (get item ''plausibility'')"

definition validIdeas :: "json list \<Rightarrow> json list" where
  "validIdeas ideas = filter valid_item ideas"

text \<open>\<^verbatim>\<open>item.relevance + item.plausibility\<close>, and the comparator of the sort.\<close>

definition score :: "json \<Rightarrow> jsnum" where
  "score item = num_add (number (get item ''relevance'')) (number (get item ''plausibility''))"

definition by_score :: "json \<Rightarrow> json \<Rightarrow> rat" where
  "by_score a b = sort_order (num_sub (score b) (score a))"

text \<open>
  \<^verbatim>\<open>
  item => {
    const score = item.relevance + item.plausibility;
    const reasoning = item.reasoning ? ` (${item.reasoning})` : '';
    return `${item.idea} [Score: ${score}/20]${reasoning}`;
  }
  \<close>
  The conversion of \<^verbatim>\<open>item.reasoning\<close> can raise; then the callback raises.
\<close>

definition format_item :: "(rat \<Rightarrow> string) \<Rightarrow> json \<Rightarrow> js_error + string" where
  "format_item ns item =
     (case (if truthy (get item ''reasoning'')
            then (case string_of ns (get item ''reasoning'') of
                    Inl e \<Rightarrow> Inl e
                  | Inr t \<Rightarrow> Inr ('' ('' @ t @ '')''))
            else Inr []) of
        Inl e \<Rightarrow> Inl e
      | Inr reasoning \<Rightarrow>
          (case string_of ns (get item ''idea'') of
             Inl e \<Rightarrow> Inl e
           | Inr idea \<Rightarrow>
               (case to_string ns (JNum (score item)) of
                  Inl e \<Rightarrow> Inl e
                | Inr s \<Rightarrow> Inr (idea @ '' [Score: '' @ s @ ''/20]'' @ reasoning))))"

text \<open>\<^verbatim>\<open>validIdeas.sort(...).slice(0, 3).map(...)\<close>: the first callback that raises ends it.\<close>

definition ranked :: "(rat \<Rightarrow> string) \<Rightarrow> json list \<Rightarrow> js_error + string list" where
  "ranked ns valid = collect (map (format_item ns) (slice0 (js_sort by_score valid) 3))"

text \<open>The block from the filter to the end of the \<^verbatim>\<open>try\<close>, on the normalized list.\<close>

definition best_of :: "(rat \<Rightarrow> string) \<Rightarrow> string \<Rightarrow> json list \<Rightarrow> js_error + string list" where
  "best_of ns rankingJSON ideas =
     (if length (validIdeas ideas) = 0
      then Inr [''No valid ideas found in response. Raw output: '' @ rankingJSON]
      else ranked ns (validIdeas ideas))"

text \<open>
  The whole \<^verbatim>\<open>try\<close>/\<^verbatim>\<open>catch\<close>: \<open>parse\<close> is \<^verbatim>\<open>JSON.parse\<close>, which returns the value or
  raises a SyntaxError. The \<^verbatim>\<open>catch\<close> receives whatever the block raises.
\<close>

definition best :: "(string \<Rightarrow> js_error + json) \<Rightarrow> (rat \<Rightarrow> string) \<Rightarrow> string \<Rightarrow> string list" where
  "best parse ns rankingJSON =
     (case (case parse rankingJSON of
              Inl error \<Rightarrow> Inl error
            | Inr parsed \<Rightarrow>
                (case ideasArray parsed of
                   Inl error \<Rightarrow> Inl error
                 | Inr ideas \<Rightarrow> best_of ns rankingJSON ideas)) of
        Inl error \<Rightarrow>
          [''Failed to parse ranking JSON: '' @ message error @ ''. Raw output: '' @ rankingJSON]
      | Inr b \<Rightarrow> b)"

subsection \<open>Notions for stating the order\<close>

text \<open>
  The combined mark of an entry as a point of the number line: a finite sum is itself,
  and an infinite one lies where the doubles end. \<open>top_three\<close> names the first three
  valid entries in descending order of the combined mark, entries with equal marks in
  their order in the list. \<open>denorm\<close> is the smallest positive double; the doubles are
  whole multiples of it.
\<close>

definition combined :: "json \<Rightarrow> rat" where
  "combined item =
     (case score item of Num q \<Rightarrow> q | PInf \<Rightarrow> overflow | NInf \<Rightarrow> - overflow | NaN \<Rightarrow> 0)"

definition top_three :: "json list \<Rightarrow> json list" where
  "top_three ideas = take 3 (sort_key (\<lambda>x. - combined x) (validIdeas ideas))"

definition denorm :: rat where
  "denorm = 1 / 2 ^ 1074"

definition grid :: "rat \<Rightarrow> bool" where
  "grid v \<longleftrightarrow> v / denorm \<in> \<int>"

section \<open>The pipeline and the entry point\<close>

text \<open>
  \<open>config\<close> is the result of \<^verbatim>\<open>parseArgs\<close> after the checks that follow it (a problem
  statement and a token are present); the token and the endpoint are read only where the
  client is built. What the program does not compute itself is the \<open>runtime\<close>: the file
  system, the YAML and JSON parsers, \<^verbatim>\<open>Math.random\<close>, the printing of numbers, and the
  inference service. \<open>create rt req\<close> is
  \<^verbatim>\<open>(await client.chat.completions.create(req)).choices[0].message.content.trim()\<close>:
  the text, or the error raised on the way to it.
\<close>

record config =
  model :: string
  primerFile :: string
  samples :: int
  problem :: string
  temperature :: rat
  verbose :: bool

record request =
  req_model :: string
  req_temperature :: rat
  top_p :: rat
  messages :: "(string \<times> string) list"
  response_format :: "string option"

record runtime =
  readFile :: "string \<Rightarrow> js_error + string"
  yaml_parse :: "string \<Rightarrow> js_error + json"
  math_random :: "nat \<Rightarrow> rat"
  create :: "request \<Rightarrow> js_error + string"
  json_parse :: "string \<Rightarrow> js_error + json"
  number_to_string :: "rat \<Rightarrow> string"

text \<open>
  What a run shows: the calls of \<^verbatim>\<open>console.log\<close> and \<^verbatim>\<open>console.error\<close> in order
  (\<open>ErrObj\<close> is \<^verbatim>\<open>console.error(text, err)\<close> with an error object), and how an
  asynchronous function ends: it returns, it raises, or the process exits with a status.
  Texts are bytes in UTF-8.
\<close>

datatype event = Log string | Err string | ErrObj string js_error

datatype 'a completion = Return 'a | Throw js_error | Exit nat

definition ask ::
  "runtime \<Rightarrow> config \<Rightarrow> (string \<times> string) list \<Rightarrow> rat \<Rightarrow> string option \<Rightarrow> js_error + string" where
  "ask rt cfg msgs temp responseFormat =
     create rt
       \<lparr>req_model = model cfg, req_temperature = temp, top_p = 1, messages = msgs,
        response_format =
          (if responseFormat = Some ''json_object'' then Some ''json_object'' else None)\<rparr>"

definition bullet :: string where
  "bullet = [CHR 0xE2, CHR 0x80, CHR 0xA2]"

definition connection_messages :: "string \<Rightarrow> (string \<times> string) list" where
  "connection_messages primer =
     [(''system'',
       ''Given these mechanism snippets, identify ONE interesting connection, tension, or pattern across them. Focus on:\<newline>'' @
       ''- Shared principles that work differently across domains\<newline>'' @
       ''- Complementary strengths/weaknesses between mechanisms\<newline>'' @
       ''- Unexpected similarities in how different systems handle constraints\<newline>\<newline>'' @
       ''Frame as: 'What's interesting about how X and Y both handle...' or 'Why do X and Y take opposite approaches to...' '' @
       ''Do NOT mention the target problem.''),
      (''user'', ''Available mechanisms:\<newline>'' @ bullet @ '' '' @ primer)]"

definition ideation_messages :: "string \<Rightarrow> string \<Rightarrow> string \<Rightarrow> (string \<times> string) list" where
  "ideation_messages targetProblem question primer =
     [(''system'',
       ''Given this observation about different mechanisms and a specific target problem, generate FIVE ways the mechanistic insights could address the problem. Be specific about implementation details.''),
      (''user'',
       ''Target problem: '' @ targetProblem @ ''\<newline>\<newline>Mechanistic observation: '' @ question @
       ''\<newline>\<newline>Available mechanisms:\<newline>'' @ bullet @ '' '' @ primer)]"

definition ranking_messages :: "string \<Rightarrow> string \<Rightarrow> (string \<times> string) list" where
  "ranking_messages targetProblem ideas =
     [(''system'',
       ''Extract each complete idea from the previous response and rate it. For each idea, include the FULL description (not just a title) in the 'idea' field. '' @
       ''Rate 1-10 for:\<newline>'' @
       ''- Relevance: How directly does this answer '' @ targetProblem @ ''?\<newline>'' @
       ''- Plausibility: How technically feasible given current knowledge?\<newline>\<newline>'' @
       ''Return valid JSON array format:\<newline>'' @
       ''[{\"idea\":\"[complete full description of idea 1]\",\"relevance\":7,\"plausibility\":4,\"reasoning\":\"brief explanation\"}, '' @
       ''{\"idea\":\"[complete full description of idea 2]\",\"relevance\":3,\"plausibility\":9,\"reasoning\":\"brief explanation\"}]''),
      (''user'', ideas)]"

text \<open>
  \<^verbatim>\<open>best.forEach((idea, index) => console.log(`\n${index + 1}. ${idea}`))\<close>;
  \<open>best\<close> is an array on every path, so the other branch of the test
  \<^verbatim>\<open>Array.isArray(best)\<close> is never taken.
\<close>

definition publish :: "(rat \<Rightarrow> string) \<Rightarrow> string list \<Rightarrow> event list" where
  "publish ns b =
     map (\<lambda>(index, idea). Log (''\<newline>'' @ ns (of_nat (index + 1)) @ ''. '' @ idea))
       (enumerate 0 b)"

text \<open>
  \<^verbatim>\<open>const primer = sample(primerPool, config.samples).join("\n\<bullet> ")\<close>; \<open>join\<close> converts
  the sampled entries to strings and can raise.
\<close>

definition primer_of :: "runtime \<Rightarrow> config \<Rightarrow> json list \<Rightarrow> js_error + string" where
  "primer_of rt cfg primerPool =
     join (number_to_string rt) (''\<newline>'' @ bullet @ '' '')
       (sample (math_random rt) primerPool (samples cfg))"

definition spinOnce ::
  "runtime \<Rightarrow> config \<Rightarrow> json list \<Rightarrow> string \<Rightarrow> event list \<times> unit completion" where
  "spinOnce rt cfg primerPool targetProblem =
     (case primer_of rt cfg primerPool of
        Inl err \<Rightarrow> ([], Throw err)
      | Inr primer \<Rightarrow>
     (let ns = number_to_string rt;
          out1 = [Log ([CHR 0xF0, CHR 0x9F, CHR 0x94, CHR 0x8D] @
                       '' Analyzing mechanism connections...'')]
      in (case ask rt cfg (connection_messages primer) (temperature cfg) None of
           Inl err \<Rightarrow> (out1, Throw err)
         | Inr question \<Rightarrow>
     (let out2 = out1 @ [Log ([CHR 0xF0, CHR 0x9F, CHR 0x92, CHR 0xAD] @
                              '' Generating solution ideas...'')]
      in (case ask rt cfg (ideation_messages targetProblem question primer) (4 / 5) None of
           Inl err \<Rightarrow> (out2, Throw err)
         | Inr ideas \<Rightarrow>
     (let out3 = out2 @
            (if verbose cfg
             then [Log ([CHR 0xF0, CHR 0x9F, CHR 0x90, CHR 0x9B] @ '' Generated ideas: '' @ ideas)]
             else []) @
            [Log ([CHR 0xF0, CHR 0x9F, CHR 0x93, CHR 0x8A] @ '' Ranking and evaluating ideas...'')]
      in (case ask rt cfg (ranking_messages targetProblem ideas) (1 / 5) (Some ''json_object'') of
           Inl err \<Rightarrow> (out3, Throw err)
         | Inr rankingJSON \<Rightarrow>
     (let b = best (json_parse rt) ns rankingJSON;
          out4 = out3 @
            (if verbose cfg
             then [Log ([CHR 0xF0, CHR 0x9F, CHR 0x90, CHR 0x9B] @ '' Raw ranking JSON: '' @
                        rankingJSON),
                   Log ([CHR 0xF0, CHR 0x9F, CHR 0x90, CHR 0x9B] @ '' Mechanistic observation: '' @
                        question)]
             else []) @
            [Log (''\<newline>'' @ [CHR 0xF0, CHR 0x9F, CHR 0x92, CHR 0xA1] @ '' Best ideas:'')] @
            publish ns b @ [Log ''\<newline>'']
      in (out4, Return ())))))))))"

text \<open>The \<^verbatim>\<open>catch\<close> block of \<open>main\<close>.\<close>

definition main_catch :: "config \<Rightarrow> js_error \<Rightarrow> event list \<times> unit completion" where
  "main_catch cfg error =
     ([Err (if code error = Some ''ENOENT''
            then ''Error: Primer file '' @ [CHR 0x27] @ primerFile cfg @ [CHR 0x27] @ '' not found''
            else if name error = ''YAMLParseError''
            then ''Error: Invalid YAML in primer file '' @ [CHR 0x27] @ primerFile cfg @ [CHR 0x27]
            else ''Error reading primer file: '' @ message error)],
      Exit 1)"

text \<open>The text of \<^verbatim>\<open>`... Loaded ${primerPool.length} primer mechanisms\n`\<close>.\<close>

definition loaded :: "runtime \<Rightarrow> nat \<Rightarrow> string" where
  "loaded rt n =
     [CHR 0xF0, CHR 0x9F, CHR 0x93, CHR 0x9A] @ '' Loaded '' @ number_to_string rt (of_nat n) @
     '' primer mechanisms\<newline>''"

definition main :: "runtime \<Rightarrow> config \<Rightarrow> event list \<times> unit completion" where
  "main rt cfg =
     (case readFile rt (primerFile cfg) of
        Inl error \<Rightarrow> main_catch cfg error
      | Inr primerText \<Rightarrow>
     (case yaml_parse rt primerText of
        Inl error \<Rightarrow> main_catch cfg error
      | Inr primerPool \<Rightarrow>
        if \<not> isArray (Some primerPool)
        then ([Err ''Error: Primer file should contain a YAML array/sequence''], Exit 1)
        else
          let out = [Log (loaded rt (length (elements (Some primerPool))))]
          in (case spinOnce rt cfg (elements (Some primerPool)) (problem cfg) of
                (out', Throw error) \<Rightarrow> (out @ out' @ fst (main_catch cfg error), snd (main_catch cfg error))
              | (out', c) \<Rightarrow> (out @ out', c))))"

text \<open>
  \<^verbatim>\<open>main().catch((err) => { console.error("Idea-mill encountered an error:", err); })\<close>
  (the hyphen of the source is U+2011) and the exit status of the process: the status
  given to \<^verbatim>\<open>process.exit\<close>, and 0 when the script runs to its end, also after the
  handler of \<^verbatim>\<open>catch\<close> has run.
\<close>

definition top_level_text :: string where
  "top_level_text = ''Idea'' @ [CHR 0xE2, CHR 0x80, CHR 0x91] @ ''mill encountered an error:''"

definition program :: "runtime \<Rightarrow> config \<Rightarrow> event list \<times> nat" where
  "program rt cfg =
     (case main rt cfg of
        (out, Return u) \<Rightarrow> (out, 0)
      | (out, Throw err) \<Rightarrow> (out @ [ErrObj top_level_text err], 0)
      | (out, Exit status) \<Rightarrow> (out, status))"

section \<open>A concrete runtime for the examples\<close>

text \<open>
  The decimal string of a natural number, and with it the string of an integer-valued
  number as the runtime prints it (the examples use no other numbers).
\<close>

function decimal :: "nat \<Rightarrow> string" where
  "decimal n =
     (if n < 10 then [''0123456789'' ! n]
      else decimal (n div 10) @ [''0123456789'' ! (n mod 10)])"
  by pat_completeness auto
termination
  by (relation "measure id") auto

declare decimal.simps [simp del]

definition integer_string :: "rat \<Rightarrow> string" where
  "integer_string q = (if q < 0 then ''-'' else []) @ decimal (nat \<lfloor>\<bar>q\<bar>\<rfloor>)"

definition cfg0 :: config where
  "cfg0 = \<lparr>model = ''openai/gpt-4o'', primerFile = ''./primer.yaml'', samples = 2,
           problem = ''reducing cloud costs'', temperature = 7 / 10, verbose = False\<rparr>"

definition entry :: "string \<Rightarrow> rat \<Rightarrow> rat \<Rightarrow> string \<Rightarrow> json" where
  "entry i r p why =
     JObj [(''idea'', JStr i), (''relevance'', JNum (Num r)), (''plausibility'', JNum (Num p)),
           (''reasoning'', JStr why)]"

definition ideas0 :: "json list" where
  "ideas0 = [entry ''A'' 6 6 ''ok'', entry ''B'' 10 10 ''best'', entry ''C'' 2 3 ''weak'',
             entry ''D'' 9 8 ''good'']"

definition ranking0 :: string where
  "ranking0 =
     ''[{\"idea\":\"A\",\"relevance\":6,\"plausibility\":6,\"reasoning\":\"ok\"},'' @
     ''{\"idea\":\"B\",\"relevance\":10,\"plausibility\":10,\"reasoning\":\"best\"},'' @
     ''{\"idea\":\"C\",\"relevance\":2,\"plausibility\":3,\"reasoning\":\"weak\"},'' @
     ''{\"idea\":\"D\",\"relevance\":9,\"plausibility\":8,\"reasoning\":\"good\"}]''"

definition enoent :: js_error where
  "enoent = \<lparr>name = ''Error'', message = ''ENOENT: no such file or directory'',
             code = Some ''ENOENT''\<rparr>"

definition yaml_error :: js_error where
  "yaml_error = \<lparr>name = ''YAMLParseError'', message = ''Flow sequence must end with a ]'',
                 code = Some ''MISSING_CHAR''\<rparr>"

definition syntax_error :: js_error where
  "syntax_error = \<lparr>name = ''SyntaxError'', message = ''Unexpected end of JSON input'',
                   code = None\<rparr>"

definition connection_error :: js_error where
  "connection_error = \<lparr>name = ''APIConnectionError'', message = ''Connection error.'',
                       code = None\<rparr>"

text \<open>
  A primer file of three mechanisms, a service that answers each stage, and the parsers
  on the texts that occur: \<open>ranking0\<close> parses to \<open>ideas0\<close>, the text \<^verbatim>\<open>null\<close> to
  \<^verbatim>\<open>null\<close>, a truncated text does not parse.
\<close>

definition rt0 :: runtime where
  "rt0 =
     \<lparr>readFile = (\<lambda>path. if path = ''./primer.yaml'' then Inr ''- gecko\<newline>- bees\<newline>- tcp''
                          else Inl enoent),
      yaml_parse = (\<lambda>text. if text = ''- gecko\<newline>- bees\<newline>- tcp''
                            then Inr (JArr [JStr ''gecko'', JStr ''bees'', JStr ''tcp''])
                            else if text = ''gecko'' then Inr (JStr ''gecko'')
                            else Inl yaml_error),
      math_random = (\<lambda>i. 1 / (of_nat i + 2)),
      create = (\<lambda>req. if response_format req = Some ''json_object'' then Inr ranking0
                       else if req_temperature req = 4 / 5 then Inr ''five ideas''
                       else Inr ''an observation''),
      json_parse = (\<lambda>text. if text = ranking0 then Inr (JArr ideas0)
                            else if text = ''null'' then Inr JNull
                            else Inl syntax_error),
      number_to_string = integer_string\<rparr>"

text \<open>
  More normalized lists: one with two valid entries among seven, one with none, one whose
  only entry has a reasoning that cannot be converted to a string, and one with the marks
  0.1 + 0.2 and 0.30000000000000004 + 0 as the doubles that \<^verbatim>\<open>JSON.parse\<close> reads.
\<close>

definition ideas1 :: "json list" where
  "ideas1 =
     [entry ''A'' 6 6 ''ok'', JNull,
      JObj [(''idea'', JStr ''X''), (''relevance'', JStr ''high''), (''plausibility'', JNum (Num 3))],
      JObj [(''idea'', JStr ''Y''), (''relevance'', JNum NaN), (''plausibility'', JNum (Num 3))],
      JObj [(''idea'', JNum (Num 1)), (''relevance'', JNum (Num 9)), (''plausibility'', JNum (Num 9))],
      JObj [(''idea'', JStr ''Z''), (''relevance'', JNum (Num 9))],
      entry ''B'' 10 10 '''']"

definition ideas2 :: "json list" where
  "ideas2 =
     [JNull, JStr ''an idea'',
      JObj [(''idea'', JStr ''X''), (''relevance'', JStr ''7''), (''plausibility'', JNum (Num 3))],
      JObj [(''idea'', JStr ''Y''), (''plausibility'', JNum (Num 3))]]"

definition ideas3 :: "json list" where
  "ideas3 =
     [JObj [(''idea'', JStr ''a''), (''relevance'', JNum (Num 1)), (''plausibility'', JNum (Num 1)),
            (''reasoning'', JObj [(''toString'', JNum (Num 1))])]]"

definition ideas4 :: "json list" where
  "ideas4 =
     [entry ''A'' (3602879701896397 / 2 ^ 55) (3602879701896397 / 2 ^ 54) ''sum'',
      entry ''C'' (1351079888211149 / 2 ^ 52) 0 ''one'']"

text \<open>
  Variants of the runtime: a service that cannot be reached, a stage-3 answer cut off after
  two characters, a primer file that is not YAML, one that holds a single string, and one
  whose second entry is a mapping with the key \<^verbatim>\<open>toString\<close>.
\<close>

definition rt_net :: runtime where
  "rt_net = rt0\<lparr>create := \<lambda>req. Inl connection_error\<rparr>"

definition rt_truncated :: runtime where
  "rt_truncated = rt0\<lparr>create := (\<lambda>req. if response_format req = Some ''json_object''
                                          then Inr ''[{'' else create rt0 req)\<rparr>"

definition rt_bad_yaml :: runtime where
  "rt_bad_yaml = rt0\<lparr>readFile := \<lambda>path. Inr ''[gecko''\<rparr>"

definition rt_scalar :: runtime where
  "rt_scalar = rt0\<lparr>readFile := \<lambda>path. Inr ''gecko''\<rparr>"

definition rt_mapping :: runtime where
  "rt_mapping =
     rt0\<lparr>yaml_parse := \<lambda>primerText.
            Inr (JArr [JStr ''gecko'', JObj [(''toString'', JNum (Num 1))]])\<rparr>"

section \<open>Properties of the sampler\<close>

lemma mset_insort_by: "mset (insort_by cmp x xs) = add_mset x (mset xs)"
  by (induction xs) simp_all

lemma mset_js_sort: "mset (js_sort cmp xs) = mset xs"
  by (induction xs) (simp_all add: js_sort_def mset_insort_by)

lemma length_js_sort: "length (js_sort cmp xs) = length xs"
  using mset_js_sort [of cmp xs] by (metis size_mset)

lemma set_js_sort: "set (js_sort cmp xs) = set xs"
  using mset_js_sort [of cmp xs] by (metis set_mset_mset)

lemma distinct_js_sort: "distinct (js_sort cmp xs) = distinct xs"
  using mset_js_sort [of cmp xs] by (metis mset_eq_imp_distinct_iff)

lemma insort_by_map:
  "insort_by cmp (g x) (map g xs) = map g (insort_by (\<lambda>a b. cmp (g a) (g b)) x xs)"
  by (induction xs) simp_all

lemma js_sort_map:
  "js_sort cmp (map g xs) = map g (js_sort (\<lambda>a b. cmp (g a) (g b)) xs)"
  by (induction xs) (simp_all add: js_sort_def insort_by_map)

lemma slice0_map: "slice0 (map g xs) k = map g (slice0 xs k)"
  by (simp add: slice0_def take_map)

lemma tag_random_positions:
  "tag_random rnd arr = map (\<lambda>i. (arr ! i, rnd i)) [0..<length arr]"
  by (rule nth_equalityI) (simp_all add: tag_random_def)

lemma sample_positions:
  "sample rnd arr k = map (\<lambda>i. arr ! i) (positions rnd (length arr) k)"
  by (simp add: sample_def positions_def tag_random_positions js_sort_map slice0_map
      by_r_def comp_def)

lemma distinct_positions: "distinct (positions rnd n k)"
  by (simp add: positions_def slice0_def distinct_js_sort)

lemma set_positions: "set (positions rnd n k) \<subseteq> {0..<n}"
proof -
  have "set (positions rnd n k) \<subseteq> set (js_sort (\<lambda>i j. rnd i - rnd j) [0..<n])"
    by (auto simp: positions_def slice0_def dest: in_set_takeD)
  then show ?thesis by (simp add: set_js_sort)
qed

lemma length_positions:
  "0 \<le> k \<Longrightarrow> k \<le> int n \<Longrightarrow> length (positions rnd n k) = nat k"
  by (simp add: positions_def slice0_def length_js_sort)

lemma positions_all:
  "int n < k \<Longrightarrow> positions rnd n k = js_sort (\<lambda>i j. rnd i - rnd j) [0..<n]"
  by (simp add: positions_def slice0_def length_js_sort)

lemma mset_take_subseteq: "mset (take n xs) \<subseteq># mset xs"
proof -
  have "mset xs = mset (take n xs) + mset (drop n xs)"
    by (simp flip: mset_append)
  then show ?thesis by simp
qed

lemma mset_slice0_subseteq: "mset (slice0 xs k) \<subseteq># mset xs"
  by (simp add: slice0_def mset_take_subseteq)

lemma map_fst_tag_random: "map fst (tag_random rnd arr) = arr"
  by (simp add: tag_random_def)

lemma mset_sample_subseteq: "mset (sample rnd arr k) \<subseteq># mset arr"
proof -
  have "mset (sample rnd arr k) \<subseteq># image_mset fst (mset (js_sort by_r (tag_random rnd arr)))"
    unfolding sample_def mset_map by (rule image_mset_subseteq_mono) (rule mset_slice0_subseteq)
  also have "\<dots> = mset (map fst (tag_random rnd arr))"
    by (simp add: mset_js_sort)
  finally show ?thesis by (simp add: map_fst_tag_random)
qed

text \<open>
  C5. For a list of length \<open>n\<close>, a count \<open>k\<close> with \<open>0 \<le> k \<le> n\<close> and any values of
  \<^verbatim>\<open>Math.random\<close>, \<open>sample\<close> returns exactly \<open>k\<close> elements, and they are the elements at
  \<open>k\<close> pairwise different positions of the source list.
\<close>

theorem sample_k_distinct_positions:
  assumes "0 \<le> k" and "k \<le> int (length arr)"
  shows "length (sample rnd arr k) = nat k \<and>
         (\<exists>ps. sample rnd arr k = map (\<lambda>i. arr ! i) ps \<and> length ps = nat k \<and>
               distinct ps \<and> set ps \<subseteq> {0..<length arr}) \<and>
         mset (sample rnd arr k) \<subseteq># mset arr"
proof (intro conjI)
  let ?ps = "positions rnd (length arr) k"
  have len: "length ?ps = nat k"
    using assms by (rule length_positions)
  have eq: "sample rnd arr k = map (\<lambda>i. arr ! i) ?ps"
    by (rule sample_positions)
  show "length (sample rnd arr k) = nat k"
    by (simp add: eq len)
  show "\<exists>ps. sample rnd arr k = map (\<lambda>i. arr ! i) ps \<and> length ps = nat k \<and>
               distinct ps \<and> set ps \<subseteq> {0..<length arr}"
    using eq len distinct_positions [of rnd "length arr" k]
      set_positions [of rnd "length arr" k]
    by blast
  show "mset (sample rnd arr k) \<subseteq># mset arr"
    by (rule mset_sample_subseteq)
qed

theorem sample_k_distinct_positions_witness:
  "length (sample (\<lambda>i. [3/10, 1/10, 2/10, 1/10] ! i) [''a'', ''b'', ''c'', ''d''] 3) = nat 3 \<and>
   sample (\<lambda>i. [3/10, 1/10, 2/10, 1/10] ! i) [''a'', ''b'', ''c'', ''d''] 3 = [''b'', ''d'', ''c'']"
proof -
  have "length (sample (\<lambda>i. [3/10, 1/10, 2/10, 1/10] ! i) [''a'', ''b'', ''c'', ''d''] 3) = nat 3"
    using sample_k_distinct_positions
      [of 3 "[''a'', ''b'', ''c'', ''d'']" "\<lambda>i. [3/10, 1/10, 2/10, 1/10] ! i"]
    by simp
  moreover have
    "sample (\<lambda>i. [3/10, 1/10, 2/10, 1/10] ! i) [''a'', ''b'', ''c'', ''d''] 3 = [''b'', ''d'', ''c'']"
    by (simp add: sample_def tag_random_def js_sort_def slice0_def by_r_def upt_rec)
  ultimately show ?thesis by simp
qed

text \<open>
  C6. When the count \<open>k\<close> is larger than the length \<open>n\<close> of the list, \<open>sample\<close> returns
  (it has no failing branch) all \<open>n\<close> elements of the list in some order, which is fewer
  than the \<open>k\<close> asked for.
\<close>

theorem sample_beyond_length:
  assumes "int (length arr) < k"
  shows "mset (sample rnd arr k) = mset arr \<and>
         length (sample rnd arr k) = length arr \<and>
         int (length (sample rnd arr k)) < k"
proof -
  have all: "sample rnd arr k = map fst (js_sort by_r (tag_random rnd arr))"
    using assms by (simp add: sample_def slice0_def length_js_sort tag_random_def)
  have "mset (sample rnd arr k) = image_mset fst (mset (tag_random rnd arr))"
    by (simp add: all mset_js_sort)
  also have "\<dots> = mset (map fst (tag_random rnd arr))"
    by simp
  finally have m: "mset (sample rnd arr k) = mset arr"
    by (simp add: map_fst_tag_random)
  then have "length (sample rnd arr k) = length arr"
    by (metis size_mset)
  with m assms show ?thesis by simp
qed

theorem sample_beyond_length_witness:
  "int (length [''a'', ''b'', ''c'']) < 6 \<and>
   mset (sample (\<lambda>i. [3/10, 1/10, 2/10] ! i) [''a'', ''b'', ''c''] 6) = mset [''a'', ''b'', ''c''] \<and>
   sample (\<lambda>i. [3/10, 1/10, 2/10] ! i) [''a'', ''b'', ''c''] 6 = [''b'', ''c'', ''a'']"
proof -
  have "mset (sample (\<lambda>i. [3/10, 1/10, 2/10] ! i) [''a'', ''b'', ''c''] 6) = mset [''a'', ''b'', ''c'']"
    using sample_beyond_length [of "[''a'', ''b'', ''c'']" 6 "\<lambda>i. [3/10, 1/10, 2/10] ! i"]
    by simp
  moreover have
    "sample (\<lambda>i. [3/10, 1/10, 2/10] ! i) [''a'', ''b'', ''c''] 6 = [''b'', ''c'', ''a'']"
    by (simp add: sample_def tag_random_def js_sort_def slice0_def by_r_def upt_rec)
  ultimately show ?thesis by simp
qed

lemma sort_in_place_fresh:
  "sort_in_place (h @ [Tagged ps]) (length h) = h @ [Tagged (js_sort by_r ps)]"
  by (simp add: sort_in_place_def)

lemma sample_st_eq:
  assumes "arr < length h" and "h ! arr = Vals xs"
  shows "sample_st rnd h arr k =
         Some (length h + 2,
               h @ [Tagged (js_sort by_r (tag_random rnd xs)),
                    Tagged (slice0 (js_sort by_r (tag_random rnd xs)) k),
                    Vals (sample rnd xs k)])"
  using assms
  by (simp add: sample_st_def alloc_def sort_in_place_fresh nth_append sample_def)

text \<open>
  C10. \<open>sample\<close> does not change its argument: run on a store in which \<open>arr\<close> is the
  address of an array with the elements \<open>xs\<close>, it returns the address \<open>r\<close> of a newly
  allocated array and a store in which \<open>arr\<close> still holds \<open>xs\<close>, as does every other array
  that existed before the call; the array that \<open>sort\<close> rearranges is the one \<open>map\<close> has
  just built.
\<close>

theorem sample_st_frame:
  assumes "arr < length h" and "h ! arr = Vals xs"
  shows "\<exists>r h'. sample_st rnd h arr k = Some (r, h') \<and>
           h' ! arr = Vals xs \<and>
           (\<forall>a < length h. h' ! a = h ! a) \<and>
           length h \<le> r \<and> h' ! r = Vals (sample rnd xs k)"
  using assms by (simp add: sample_st_eq nth_append)

theorem sample_st_frame_witness:
  "\<exists>r h'. sample_st (\<lambda>i. [3/10, 1/10, 2/10] ! i) [Vals [''a'', ''b'', ''c'']] 0 2 = Some (r, h') \<and>
     h' ! 0 = Vals [''a'', ''b'', ''c''] \<and> h' ! r = Vals [''b'', ''c'']"
proof -
  have "sample (\<lambda>i. [3/10, 1/10, 2/10] ! i) [''a'', ''b'', ''c''] 2 = [''b'', ''c'']"
    by (simp add: sample_def tag_random_def js_sort_def slice0_def by_r_def upt_rec)
  with sample_st_frame [of 0 "[Vals [''a'', ''b'', ''c'']]" "[''a'', ''b'', ''c'']"
      "\<lambda>i. [3/10, 1/10, 2/10] ! i" 2]
  show ?thesis by auto
qed

section \<open>Properties of the arithmetic\<close>

lemma lg_up_lower: "1 \<le> q \<Longrightarrow> 2 powi lg_up q \<le> q"
proof (induction q rule: lg_up.induct)
  case (1 q)
  show ?case
  proof (cases "2 \<le> q")
    case True
    then have "2 powi lg_up (q / 2) \<le> q / 2"
      using "1.IH" by simp
    moreover have "lg_up q = lg_up (q / 2) + 1"
      using True by (simp add: lg_up.simps [of q])
    ultimately show ?thesis
      by (simp add: power_int_add)
  next
    case False
    then have "lg_up q = 0"
      by (simp add: lg_up.simps [of q])
    with "1.prems" show ?thesis by simp
  qed
qed

lemma lg_up_upper: "1 \<le> q \<Longrightarrow> q < 2 powi (lg_up q + 1)"
proof (induction q rule: lg_up.induct)
  case (1 q)
  show ?case
  proof (cases "2 \<le> q")
    case True
    then have "q / 2 < 2 powi (lg_up (q / 2) + 1)"
      using "1.IH" by simp
    moreover have "lg_up q = lg_up (q / 2) + 1"
      using True by (simp add: lg_up.simps [of q])
    ultimately show ?thesis
      by (simp add: power_int_add)
  next
    case False
    then have "lg_up q = 0"
      by (simp add: lg_up.simps [of q])
    with False show ?thesis by simp
  qed
qed

lemma lg_down_lower: "0 < q \<Longrightarrow> q < 1 \<Longrightarrow> 2 powi lg_down q \<le> q"
proof (induction q rule: lg_down.induct)
  case (1 q)
  have eq: "lg_down q = lg_down (2 * q) - 1"
    using "1.prems" by (simp add: lg_down.simps [of q])
  show ?case
  proof (cases "2 * q < 1")
    case True
    then have "2 powi lg_down (2 * q) \<le> 2 * q"
      using "1.IH" "1.prems" by simp
    then show ?thesis
      by (simp add: eq power_int_diff)
  next
    case False
    then have "lg_down (2 * q) = 0"
      by (simp add: lg_down.simps [of "2 * q"])
    with False show ?thesis
      by (simp add: eq power_int_minus)
  qed
qed

lemma lg_down_upper: "0 < q \<Longrightarrow> q < 1 \<Longrightarrow> q < 2 powi (lg_down q + 1)"
proof (induction q rule: lg_down.induct)
  case (1 q)
  have eq: "lg_down q = lg_down (2 * q) - 1"
    using "1.prems" by (simp add: lg_down.simps [of q])
  show ?case
  proof (cases "2 * q < 1")
    case True
    then have "2 * q < 2 powi (lg_down (2 * q) + 1)"
      using "1.IH" "1.prems" by simp
    then show ?thesis
      by (simp add: eq power_int_add)
  next
    case False
    then have "lg_down (2 * q) = 0"
      by (simp add: lg_down.simps [of "2 * q"])
    with "1.prems" show ?thesis
      by (simp add: eq)
  qed
qed

text \<open>\<open>binade\<close> is the integer part of the binary logarithm.\<close>

lemma binade_lower: "0 < q \<Longrightarrow> 2 powi binade q \<le> q"
  by (simp add: binade_def lg_up_lower lg_down_lower)

lemma binade_upper: "0 < q \<Longrightarrow> q < 2 powi (binade q + 1)"
  by (simp add: binade_def lg_up_upper lg_down_upper)

lemma rne_ge_floor: "\<lfloor>x\<rfloor> \<le> rne x"
  by (simp add: rne_def Let_def)

lemma rne_nearest: "\<bar>x - of_int (rne x)\<bar> \<le> 1 / 2"
proof -
  have "of_int \<lfloor>x\<rfloor> \<le> x" and "x < of_int \<lfloor>x\<rfloor> + 1"
    by linarith+
  then show ?thesis
    by (auto simp: rne_def Let_def abs_le_iff)
qed

lemma ulp_exponent_ge: "- 1074 \<le> ulp_exponent a"
  by (simp add: ulp_exponent_def)

lemma denorm_pos: "0 < denorm"
  unfolding denorm_def by (rule divide_pos_pos) (rule zero_less_one, rule zero_less_power, rule zero_less_numeral)

lemma grid_iff: "grid v \<longleftrightarrow> (\<exists>k::int. v = of_int k * denorm)"
proof
  assume "grid v"
  then obtain k :: int where "v / denorm = of_int k"
    unfolding grid_def by (rule Ints_cases)
  then have "v = of_int k * denorm"
    using denorm_pos by (simp add: field_simps)
  then show "\<exists>k::int. v = of_int k * denorm" ..
next
  assume "\<exists>k::int. v = of_int k * denorm"
  then obtain k :: int where "v = of_int k * denorm" ..
  then have "v / denorm = of_int k"
    using denorm_pos by simp
  then show "grid v"
    by (simp add: grid_def)
qed

lemma grid_diff: "grid x \<Longrightarrow> grid y \<Longrightarrow> grid (x - y)"
proof -
  assume "grid x" "grid y"
  then obtain k l :: int where "x = of_int k * denorm" "y = of_int l * denorm"
    unfolding grid_iff by blast
  then have "x - y = of_int (k - l) * denorm"
    by (simp add: left_diff_distrib)
  then show ?thesis
    unfolding grid_iff ..
qed

lemma grid_zero: "grid 0"
  unfolding grid_iff by (rule exI [of _ 0]) simp

lemma grid_minus: "grid x \<Longrightarrow> grid (- x)"
  using grid_diff [OF grid_zero, of x] by simp

lemma pow_shift_gen:
  assumes "- int m \<le> e"
  shows "(2::rat) powi e = of_int (2 ^ nat (e + int m)) * (1 / 2 ^ m)"
proof -
  have "(2::rat) powi e = 2 powi (int (nat (e + int m)) + (- int m))"
    using assms by simp
  also have "\<dots> = 2 powi int (nat (e + int m)) * 2 powi (- int m)"
    by (rule power_int_add) simp
  also have "(2::rat) powi int (nat (e + int m)) = 2 ^ nat (e + int m)"
    by (rule power_int_of_nat)
  also have "(2::rat) powi (- int m) = 1 / 2 ^ m"
    by (simp add: power_int_minus divide_inverse)
  finally show ?thesis
    by simp
qed

lemma pow_shift:
  assumes "- 1074 \<le> e"
  shows "(2::rat) powi e = of_int (2 ^ nat (e + 1074)) * denorm"
proof -
  have "- int 1074 \<le> e"
    using assms by (simp only: of_nat_numeral)
  from pow_shift_gen [OF this] show ?thesis
    by (simp only: of_nat_numeral denorm_def)
qed

lemma grid_scaled: "- 1074 \<le> e \<Longrightarrow> grid (of_int n * 2 powi e)"
proof -
  assume "- 1074 \<le> e"
  then have "of_int n * (2::rat) powi e = of_int (n * 2 ^ nat (e + 1074)) * denorm"
    by (simp only: pow_shift of_int_mult mult.assoc)
  then show ?thesis
    unfolding grid_iff ..
qed

lemma denorm_powi: "denorm = 2 powi (- 1074)"
  using pow_shift [of "- 1074"] by simp

lemma grid_nearest: "grid (nearest a)"
  unfolding nearest_def by (rule grid_scaled) (rule ulp_exponent_ge)

lemma nearest_nonneg: "0 < a \<Longrightarrow> 0 \<le> nearest a"
proof -
  assume "0 < a"
  then have "0 \<le> a / 2 powi ulp_exponent a" by simp
  then have "0 \<le> \<lfloor>a / 2 powi ulp_exponent a\<rfloor>" by simp
  with rne_ge_floor [of "a / 2 powi ulp_exponent a"]
  have "0 \<le> rne (a / 2 powi ulp_exponent a)" by linarith
  then show ?thesis by (simp add: nearest_def)
qed

text \<open>A finite result of the rounding is a double below the overflow bound.\<close>

lemma round_double_Num:
  assumes "round_double q = Num v"
  shows "grid v \<and> \<bar>v\<bar> < overflow"
proof -
  consider "q = 0" | "0 < q" | "q < 0" by linarith
  then show ?thesis
  proof cases
    case 1
    with assms have "v = 0" by (simp add: round_double_def)
    then show ?thesis by (simp add: grid_zero overflow_def)
  next
    case 2
    with assms have "v = nearest q" "\<not> overflow \<le> nearest q"
      by (simp_all add: round_double_def split: if_splits)
    with nearest_nonneg [OF 2] show ?thesis by (simp add: grid_nearest)
  next
    case 3
    with assms have "v = - nearest (- q)" "\<not> overflow \<le> nearest (- q)"
      by (simp_all add: round_double_def split: if_splits)
    moreover from 3 have "0 \<le> nearest (- q)" by (simp add: nearest_nonneg)
    ultimately show ?thesis by (simp add: grid_nearest grid_minus)
  qed
qed

lemma nearest_pos:
  assumes "grid d" and "0 < d"
  shows "0 < nearest d"
proof -
  let ?e = "ulp_exponent d"
  have "1 \<le> d / 2 powi ?e"
  proof (cases "- 1022 \<le> binade d")
    case True
    then have e: "?e = binade d - 52"
      by (simp add: ulp_exponent_def)
    have "2 powi binade d \<le> d"
      using assms(2) by (rule binade_lower)
    moreover have "(2::rat) powi ?e = 2 powi binade d / 2 ^ 52"
      unfolding e by (simp add: power_int_diff)
    ultimately show ?thesis
      using assms(2) by (simp add: field_simps)
  next
    case False
    then have "?e = - 1074"
      by (simp add: ulp_exponent_def)
    then have e: "(2::rat) powi ?e = denorm"
      by (simp only: denorm_powi)
    from assms(1) obtain k :: int where k: "d = of_int k * denorm"
      unfolding grid_iff ..
    with assms(2) denorm_pos have "0 < k"
      by (simp add: zero_less_mult_iff)
    then have k1: "(1::rat) \<le> of_int k" by simp
    have "d / 2 powi ?e = d / denorm"
      by (simp only: e)
    also have "\<dots> = of_int k"
      using denorm_pos by (simp add: k)
    finally have eq: "d / 2 powi ?e = of_int k" .
    show ?thesis
      unfolding eq by (rule k1)
  qed
  then have "1 \<le> \<lfloor>d / 2 powi ?e\<rfloor>" by simp
  with rne_ge_floor [of "d / 2 powi ?e"] have "0 < rne (d / 2 powi ?e)"
    by linarith
  then show ?thesis
    by (simp add: nearest_def)
qed

text \<open>
  The rounded difference of two doubles has the sign of the exact difference: two
  different doubles are at least \<open>denorm\<close> apart.
\<close>

lemma round_double_sign:
  assumes "grid d"
  shows "sort_order (round_double d) \<le> 0 \<longleftrightarrow> d \<le> 0"
proof -
  consider "d = 0" | "0 < d" | "d < 0" by linarith
  then show ?thesis
  proof cases
    case 1
    then show ?thesis by (simp add: round_double_def)
  next
    case 2
    with nearest_pos [OF assms] show ?thesis
      by (simp add: round_double_def)
  next
    case 3
    then have "0 < nearest (- d)"
      using nearest_pos [OF grid_minus [OF assms]] by simp
    with 3 show ?thesis
      by (simp add: round_double_def)
  qed
qed

text \<open>A number that is a whole multiple of its unit in the last place rounds to itself.\<close>

lemma round_double_exact:
  assumes "0 < q" and "q < overflow" and "q / 2 powi ulp_exponent q = of_int k"
  shows "round_double q = Num q"
proof -
  have "nearest q = of_int k * 2 powi ulp_exponent q"
    by (simp add: nearest_def assms(3) rne_def Let_def)
  also have "\<dots> = q"
    using assms(3) by (simp add: field_simps)
  finally have "nearest q = q" .
  with assms(1,2) show ?thesis
    by (simp add: round_double_def)
qed

lemma num_add_Num:
  assumes "num_add a b = Num v"
  shows "grid v \<and> \<bar>v\<bar> < overflow"
proof -
  from assms obtain x y where "a = Num x" "b = Num y"
    by (cases a; cases b) simp_all
  with assms have "round_double (x + y) = Num v" by simp
  then show ?thesis by (rule round_double_Num)
qed

section \<open>Properties of the ranker\<close>

lemma typeof_string_iff: "typeof v = ''string'' \<longleftrightarrow> (\<exists>s. v = Some (JStr s))"
  by (cases v rule: typeof.cases) simp_all

lemma typeof_number_iff: "typeof v = ''number'' \<longleftrightarrow> (\<exists>n. v = Some (JNum n))"
  by (cases v rule: typeof.cases) simp_all

lemma not_isNaN_iff: "\<not> isNaN v \<longleftrightarrow> (\<exists>n. v = Some (JNum n) \<and> n \<noteq> NaN)"
  by (cases v rule: isNaN.cases) simp_all

lemma get_Some_truthy: "get item k = Some v \<Longrightarrow> truthy (Some item)"
  by (cases item) simp_all

lemma valid_item_iff:
  "valid_item item \<longleftrightarrow>
     (\<exists>s r p. get item ''idea'' = Some (JStr s) \<and>
              get item ''relevance'' = Some (JNum r) \<and>
              get item ''plausibility'' = Some (JNum p) \<and> r \<noteq> NaN \<and> p \<noteq> NaN)"
  unfolding valid_item_def typeof_string_iff typeof_number_iff not_isNaN_iff
  by (auto dest: get_Some_truthy)

lemma score_Num: "score x = Num v \<Longrightarrow> grid v \<and> \<bar>v\<bar> < overflow"
  unfolding score_def by (rule num_add_Num)

lemma overflow_pos: "0 < overflow"
  unfolding overflow_def by (rule zero_less_power) (rule zero_less_numeral)

text \<open>
  The comparator of the sort orders two entries as their combined marks are ordered,
  when neither mark is \<open>NaN\<close>.
\<close>

lemma by_score_Num_Num:
  assumes "score a = Num x" and "score b = Num y"
  shows "by_score a b \<le> 0 \<longleftrightarrow> y \<le> x"
proof -
  have "grid (y - x)"
    using score_Num [OF assms(1)] score_Num [OF assms(2)] by (simp add: grid_diff)
  then have "sort_order (round_double (y - x)) \<le> 0 \<longleftrightarrow> y - x \<le> 0"
    by (rule round_double_sign)
  then show ?thesis
    by (simp add: by_score_def num_sub_def assms)
qed

lemma by_score_key:
  assumes "score a \<noteq> NaN" and "score b \<noteq> NaN"
  shows "by_score a b \<le> 0 \<longleftrightarrow> - combined a \<le> - combined b"
proof (cases "score a")
  case a: (Num x)
  then have x: "\<bar>x\<bar> < overflow" using score_Num by blast
  show ?thesis
  proof (cases "score b")
    case (Num y)
    with a show ?thesis
      by (simp add: by_score_Num_Num combined_def)
  next
    case PInf
    with a x show ?thesis
      by (simp add: by_score_def num_sub_def combined_def)
  next
    case NInf
    with a x show ?thesis
      by (simp add: by_score_def num_sub_def combined_def)
  next
    case NaN
    with assms(2) show ?thesis by simp
  qed
next
  case a: PInf
  show ?thesis
  proof (cases "score b")
    case (Num y)
    then have "\<bar>y\<bar> < overflow" using score_Num by blast
    with a Num show ?thesis
      by (simp add: by_score_def num_sub_def combined_def)
  next
    case PInf
    with a show ?thesis
      by (simp add: by_score_def num_sub_def combined_def)
  next
    case NInf
    with a overflow_pos show ?thesis
      by (simp add: by_score_def num_sub_def combined_def)
  next
    case NaN
    with assms(2) show ?thesis by simp
  qed
next
  case a: NInf
  show ?thesis
  proof (cases "score b")
    case (Num y)
    then have "\<bar>y\<bar> < overflow" using score_Num by blast
    with a Num show ?thesis
      by (simp add: by_score_def num_sub_def combined_def)
  next
    case PInf
    with a overflow_pos show ?thesis
      by (simp add: by_score_def num_sub_def combined_def)
  next
    case NInf
    with a show ?thesis
      by (simp add: by_score_def num_sub_def combined_def)
  next
    case NaN
    with assms(2) show ?thesis by simp
  qed
next
  case NaN
  with assms(1) show ?thesis by simp
qed

lemma insort_by_insort_key:
  "(\<And>y. y \<in> set ys \<Longrightarrow> cmp x y \<le> 0 \<longleftrightarrow> f x \<le> f y) \<Longrightarrow>
   insort_by cmp x ys = insort_key f x ys"
  by (induction ys) simp_all

lemma js_sort_sort_key:
  "(\<And>x y. x \<in> set xs \<Longrightarrow> y \<in> set xs \<Longrightarrow> cmp x y \<le> 0 \<longleftrightarrow> f x \<le> f y) \<Longrightarrow>
   js_sort cmp xs = sort_key f xs"
proof (induction xs)
  case Nil
  show ?case by (simp add: js_sort_def)
next
  case (Cons x xs)
  have IH: "js_sort cmp xs = sort_key f xs"
    by (rule Cons.IH) (simp add: Cons.prems)
  have "insort_by cmp x (sort_key f xs) = insort_key f x (sort_key f xs)"
    by (rule insort_by_insort_key) (simp add: Cons.prems)
  with IH show ?case by (simp add: js_sort_def)
qed

lemma js_sort_by_score:
  assumes "\<forall>x\<in>set xs. score x \<noteq> NaN"
  shows "js_sort by_score xs = sort_key (\<lambda>x. - combined x) xs"
  by (rule js_sort_sort_key) (simp add: by_score_key assms)



subsection \<open>Conversion to strings\<close>

lemma collect_map_Inr: "collect (map Inr xs) = Inr xs"
  by (induction xs) simp_all

lemma collect_Inr_D: "collect rs = Inr xs \<Longrightarrow> rs = map Inr xs"
proof (induction rs arbitrary: xs)
  case Nil
  then show ?case by simp
next
  case (Cons r rs)
  show ?case
  proof (cases r)
    case (Inl e)
    with Cons.prems show ?thesis by simp
  next
    case r: (Inr x)
    show ?thesis
    proof (cases "collect rs")
      case (Inl e)
      with r Cons.prems show ?thesis by simp
    next
      case (Inr ys)
      with r Cons.prems have "xs = x # ys" by simp
      moreover from Inr have "rs = map Inr ys" by (rule Cons.IH)
      ultimately show ?thesis using r by simp
    qed
  qed
qed

lemma collect_Inr_iff: "collect rs = Inr xs \<longleftrightarrow> rs = map Inr xs"
proof
  assume "collect rs = Inr xs"
  then show "rs = map Inr xs" by (rule collect_Inr_D)
next
  assume "rs = map Inr xs"
  then show "collect rs = Inr xs" by (simp add: collect_map_Inr)
qed

lemma map_all_Inr:
  "(\<And>x. x \<in> set xs \<Longrightarrow> \<exists>y. f x = Inr y) \<Longrightarrow> \<exists>ys. map f xs = map Inr ys"
proof (induction xs)
  case Nil
  show ?case by simp
next
  case (Cons x xs)
  obtain y where y: "f x = Inr y"
    using Cons.prems [of x] by auto
  have "\<exists>ys. map f xs = map Inr ys"
    by (rule Cons.IH) (simp add: Cons.prems)
  then obtain ys where "map f xs = map Inr ys" ..
  with y have "map f (x # xs) = map Inr (y # ys)" by simp
  then show ?case ..
qed

lemma collect_raises:
  assumes "Inl e \<in> set rs" and "\<forall>r\<in>set rs. \<forall>e'. r = Inl e' \<longrightarrow> e' = e"
  shows "collect rs = Inl e"
  using assms
proof (induction rs)
  case Nil
  then show ?case by simp
next
  case (Cons r rs)
  show ?case
  proof (cases r)
    case (Inl e')
    with Cons.prems(2) show ?thesis by simp
  next
    case (Inr x)
    with Cons.prems(1) have "Inl e \<in> set rs" by simp
    moreover from Cons.prems(2) have "\<forall>r\<in>set rs. \<forall>e'. r = Inl e' \<longrightarrow> e' = e" by simp
    ultimately have "collect rs = Inl e" by (rule Cons.IH)
    with Inr show ?thesis by simp
  qed
qed

lemma to_string_cases:
  "(unprintable v \<longrightarrow> to_string ns v = Inl to_primitive_error) \<and>
   (\<not> unprintable v \<longrightarrow> (\<exists>t. to_string ns v = Inr t))"
proof (induction ns v rule: to_string.induct)
  case (8 ns xs)
  let ?f = "\<lambda>x. if x = JNull then Inr [] else to_string ns x"
  have raises: "?f y = Inl to_primitive_error" if "y \<in> set xs" "unprintable y" for y
  proof -
    from that(2) have "y \<noteq> JNull" by (cases y) simp_all
    with 8 [OF that(1)] that(2) show ?thesis by simp
  qed
  have prints: "\<exists>t. ?f y = Inr t" if "y \<in> set xs" "\<not> unprintable y" for y
  proof (cases "y = JNull")
    case True
    then show ?thesis by simp
  next
    case False
    with 8 [OF that(1)] that(2) show ?thesis by simp
  qed
  show ?case
  proof (intro conjI impI)
    assume "unprintable (JArr xs)"
    then obtain x where x: "x \<in> set xs" "unprintable x"
      by (auto simp: list_ex_iff)
    from raises [OF x, symmetric] x(1) have "Inl to_primitive_error \<in> ?f ` set xs"
      by (rule image_eqI)
    then have "Inl to_primitive_error \<in> set (map ?f xs)"
      by simp
    moreover have "\<forall>r\<in>set (map ?f xs). \<forall>e'. r = Inl e' \<longrightarrow> e' = to_primitive_error"
    proof (intro ballI allI impI)
      fix r e' assume "r \<in> set (map ?f xs)" "r = Inl e'"
      then obtain y where y: "y \<in> set xs" "?f y = Inl e'" by auto
      show "e' = to_primitive_error"
      proof (cases "unprintable y")
        case True
        from raises [OF y(1) True] y(2) show ?thesis by simp
      next
        case False
        from prints [OF y(1) False] y(2) show ?thesis by simp
      qed
    qed
    ultimately have "collect (map ?f xs) = Inl to_primitive_error"
      by (rule collect_raises)
    then show "to_string ns (JArr xs) = Inl to_primitive_error"
      by simp
  next
    assume n: "\<not> unprintable (JArr xs)"
    have "\<exists>t. ?f y = Inr t" if "y \<in> set xs" for y
    proof -
      from n that have "\<not> unprintable y" by (auto simp: list_ex_iff)
      with that show ?thesis by (rule prints)
    qed
    then have "\<exists>ts. map ?f xs = map Inr ts"
      by (rule map_all_Inr)
    then obtain ts where "map ?f xs = map Inr ts" ..
    then have "collect (map ?f xs) = Inr ts"
      by (simp add: collect_map_Inr)
    then show "\<exists>t. to_string ns (JArr xs) = Inr t"
      by simp
  qed
qed simp_all

lemma to_string_raises: "unprintable v \<Longrightarrow> to_string ns v = Inl to_primitive_error"
  using to_string_cases by blast

lemma to_string_prints: "\<not> unprintable v \<Longrightarrow> \<exists>t. to_string ns v = Inr t"
  using to_string_cases by blast

lemma unprintable_truthy: "unprintable v \<Longrightarrow> truthy (Some v)"
  by (cases v) simp_all

lemma to_string_number: "\<exists>s. to_string ns (JNum n) = Inr s"
  by (cases n) simp_all

subsection \<open>Formatting an entry\<close>

lemma format_item_prints:
  assumes "get x ''idea'' = Some (JStr s)"
    and "\<forall>v. get x ''reasoning'' = Some v \<longrightarrow> \<not> unprintable v"
  shows "\<exists>sc t. to_string ns (JNum (score x)) = Inr sc \<and>
           (truthy (get x ''reasoning'') \<longrightarrow> string_of ns (get x ''reasoning'') = Inr t) \<and>
           format_item ns x =
             Inr (s @ '' [Score: '' @ sc @ ''/20]'' @
                  (if truthy (get x ''reasoning'') then '' ('' @ t @ '')'' else []))"
proof -
  obtain sc where sc: "to_string ns (JNum (score x)) = Inr sc"
    using to_string_number by blast
  have "\<exists>t. string_of ns (get x ''reasoning'') = Inr t"
  proof (cases "get x ''reasoning''")
    case None
    then show ?thesis by (simp add: string_of_def)
  next
    case (Some v)
    with assms(2) have "\<not> unprintable v" by simp
    with Some to_string_prints [of v ns] show ?thesis
      by (simp add: string_of_def)
  qed
  then obtain t where t: "string_of ns (get x ''reasoning'') = Inr t" ..
  have idea: "string_of ns (get x ''idea'') = Inr s"
    by (simp add: string_of_def assms(1))
  have "format_item ns x =
      Inr (s @ '' [Score: '' @ sc @ ''/20]'' @
           (if truthy (get x ''reasoning'') then '' ('' @ t @ '')'' else []))"
    by (simp add: format_item_def sc t idea)
  with sc t show ?thesis by blast
qed

lemma format_item_raises:
  assumes "get x ''reasoning'' = Some v" and "unprintable v"
  shows "format_item ns x = Inl to_primitive_error"
  using assms by (simp add: format_item_def string_of_def unprintable_truthy to_string_raises)

lemma format_item_error:
  assumes "valid_item x" and "format_item ns x = Inl e"
  shows "e = to_primitive_error"
proof (cases "\<forall>v. get x ''reasoning'' = Some v \<longrightarrow> \<not> unprintable v")
  case True
  from assms(1) obtain s where "get x ''idea'' = Some (JStr s)"
    unfolding valid_item_iff by blast
  from format_item_prints [OF this True, of ns] assms(2) show ?thesis
    by auto
next
  case False
  then obtain v where "get x ''reasoning'' = Some v" "unprintable v" by blast
  from format_item_raises [OF this, of ns] assms(2) show ?thesis by simp
qed

subsection \<open>The ranking block\<close>

lemma best_of_top_three:
  assumes "validIdeas ideas \<noteq> []" and "\<forall>x\<in>set (validIdeas ideas). score x \<noteq> NaN"
  shows "best_of ns raw ideas = collect (map (format_item ns) (top_three ideas))"
  using assms
  by (simp add: best_of_def ranked_def js_sort_by_score slice0_def top_three_def)

lemma top_three_valid: "x \<in> set (top_three ideas) \<Longrightarrow> valid_item x"
  by (auto dest!: in_set_takeD simp: validIdeas_def top_three_def)


lemma best_of_raises:
  assumes "validIdeas ideas \<noteq> []" and "\<forall>x\<in>set (validIdeas ideas). score x \<noteq> NaN"
    and "x \<in> set (top_three ideas)" and "get x ''reasoning'' = Some v" and "unprintable v"
  shows "best_of ns raw ideas = Inl to_primitive_error"
proof -
  let ?rs = "map (format_item ns) (top_three ideas)"
  from format_item_raises [OF assms(4,5), symmetric] assms(3)
  have "Inl to_primitive_error \<in> format_item ns ` set (top_three ideas)"
    by (rule image_eqI)
  then have "Inl to_primitive_error \<in> set ?rs"
    by simp
  moreover have "\<forall>r\<in>set ?rs. \<forall>e'. r = Inl e' \<longrightarrow> e' = to_primitive_error"
  proof (intro ballI allI impI)
    fix r e' assume "r \<in> set ?rs" "r = Inl e'"
    then obtain y where "y \<in> set (top_three ideas)" "format_item ns y = Inl e'" by auto
    then show "e' = to_primitive_error"
      using top_three_valid format_item_error by blast
  qed
  ultimately have "collect ?rs = Inl to_primitive_error"
    by (rule collect_raises)
  with best_of_top_three [OF assms(1,2)] show ?thesis by simp
qed







text \<open>
  C3. An entry is kept exactly when its \<^verbatim>\<open>idea\<close> is a string and its \<^verbatim>\<open>relevance\<close> and
  \<^verbatim>\<open>plausibility\<close> are numbers other than \<open>NaN\<close>; every other entry (also \<^verbatim>\<open>null\<close> and
  values that are not objects) has no effect on the result, which is made from kept
  entries only. When no entry is kept, the result is the single text
  \<^verbatim>\<open>No valid ideas found in response. Raw output: \<close> followed by the raw stage-3 output.
\<close>

theorem invalid_items_excluded:
  "(valid_item item \<longleftrightarrow>
      (\<exists>s r p. get item ''idea'' = Some (JStr s) \<and>
               get item ''relevance'' = Some (JNum r) \<and>
               get item ''plausibility'' = Some (JNum p) \<and> r \<noteq> NaN \<and> p \<noteq> NaN)) \<and>
   set (validIdeas ideas) = {x \<in> set ideas. valid_item x} \<and>
   best_of ns raw ideas = best_of ns raw (validIdeas ideas) \<and>
   (validIdeas ideas \<noteq> [] \<longrightarrow>
      (\<exists>top. best_of ns raw ideas = collect (map (format_item ns) top) \<and>
             set top \<subseteq> {x \<in> set ideas. valid_item x})) \<and>
   (validIdeas ideas = [] \<longrightarrow>
      best_of ns raw ideas = Inr [''No valid ideas found in response. Raw output: '' @ raw])"
proof (intro conjI)
  show "valid_item item \<longleftrightarrow>
      (\<exists>s r p. get item ''idea'' = Some (JStr s) \<and>
               get item ''relevance'' = Some (JNum r) \<and>
               get item ''plausibility'' = Some (JNum p) \<and> r \<noteq> NaN \<and> p \<noteq> NaN)"
    by (rule valid_item_iff)
  show "set (validIdeas ideas) = {x \<in> set ideas. valid_item x}"
    by (simp add: validIdeas_def)
  show "best_of ns raw ideas = best_of ns raw (validIdeas ideas)"
    by (simp add: best_of_def validIdeas_def)
  show "validIdeas ideas \<noteq> [] \<longrightarrow>
      (\<exists>top. best_of ns raw ideas = collect (map (format_item ns) top) \<and>
             set top \<subseteq> {x \<in> set ideas. valid_item x})"
  proof
    assume ne: "validIdeas ideas \<noteq> []"
    let ?top = "slice0 (js_sort by_score (validIdeas ideas)) 3"
    have "mset ?top \<subseteq># mset (js_sort by_score (validIdeas ideas))"
      by (rule mset_slice0_subseteq)
    then have "set ?top \<subseteq> set (js_sort by_score (validIdeas ideas))"
      by (metis set_mset_mono set_mset_mset)
    then have "set ?top \<subseteq> {x \<in> set ideas. valid_item x}"
      by (simp add: set_js_sort validIdeas_def)
    moreover from ne have "best_of ns raw ideas = collect (map (format_item ns) ?top)"
      by (simp add: best_of_def ranked_def)
    ultimately show "\<exists>top. best_of ns raw ideas = collect (map (format_item ns) top) \<and>
             set top \<subseteq> {x \<in> set ideas. valid_item x}"
      by blast
  qed
  show "validIdeas ideas = [] \<longrightarrow>
      best_of ns raw ideas = Inr [''No valid ideas found in response. Raw output: '' @ raw]"
    by (simp add: best_of_def)
qed

section \<open>Normalization, and the run around the ranker\<close>

lemma ideasArray_list: "ideasArray (JArr xs) = Inr xs"
  by (simp add: ideasArray_def)

lemma get_Some_object: "get v k = Some x \<Longrightarrow> \<exists>kvs. v = JObj kvs"
  by (cases v) simp_all

lemma ideasArray_ideas:
  "get v ''ideas'' = Some (JArr xs) \<Longrightarrow> ideasArray v = Inr xs"
  by (auto simp: ideasArray_def dest: get_Some_object)

lemma ideasArray_results:
  "\<not> isArray (get v ''ideas'') \<Longrightarrow> get v ''results'' = Some (JArr xs) \<Longrightarrow> ideasArray v = Inr xs"
  by (auto simp: ideasArray_def dest: get_Some_object)

lemma ideasArray_result:
  "\<not> isArray (get v ''ideas'') \<Longrightarrow> \<not> isArray (get v ''results'') \<Longrightarrow>
   get v ''result'' = Some (JArr xs) \<Longrightarrow> ideasArray v = Inr xs"
  by (auto simp: ideasArray_def dest: get_Some_object)

lemma ideasArray_single:
  "v \<noteq> JNull \<Longrightarrow> \<not> isArray (Some v) \<Longrightarrow> \<not> isArray (get v ''ideas'') \<Longrightarrow>
   \<not> isArray (get v ''results'') \<Longrightarrow> \<not> isArray (get v ''result'') \<Longrightarrow>
   ideasArray v = Inr [v]"
  by (simp add: ideasArray_def)

lemma ideasArray_four_shapes:
  assumes "\<not> isArray (get (JObj kvs) ''ideas'')" and "\<not> isArray (get (JObj kvs) ''results'')"
    and "\<not> isArray (get (JObj kvs) ''result'')"
  shows "ideasArray (JArr [JObj kvs]) = Inr [JObj kvs]"
    and "ideasArray (JObj [(''ideas'', JArr [JObj kvs])]) = Inr [JObj kvs]"
    and "ideasArray (JObj [(''results'', JArr [JObj kvs])]) = Inr [JObj kvs]"
    and "ideasArray (JObj [(''result'', JArr [JObj kvs])]) = Inr [JObj kvs]"
    and "ideasArray (JObj kvs) = Inr [JObj kvs]"
  using assms by (simp_all add: ideasArray_def)

lemma ideasArray_null: "ideasArray JNull = Inl (null_property_error ''ideas'')"
  by (simp add: ideasArray_def)

text \<open>
  C2. The stage-3 output \<^verbatim>\<open>null\<close> parses, to \<^verbatim>\<open>null\<close>, and is not wrapped in a
  one-element list: reading \<^verbatim>\<open>parsed.ideas\<close> raises a TypeError, and the \<^verbatim>\<open>catch\<close> block
  reports it as a failure to parse. For every other parsed value the normalization is
  as the lemmas \<open>ideasArray_list\<close> to \<open>ideasArray_four_shapes\<close> above say.
\<close>

theorem null_is_not_wrapped:
  "json_parse rt0 ''null'' = Inr JNull \<and>
   ideasArray JNull = Inl (null_property_error ''ideas'') \<and>
   best (json_parse rt0) integer_string ''null'' =
     [''Failed to parse ranking JSON: Cannot read properties of null (reading 'ideas'). Raw output: null'']"
  by (simp add: rt0_def ranking0_def best_def ideasArray_def null_property_error_def)

lemma best_parse_failure:
  "parse raw = Inl e \<Longrightarrow>
   best parse ns raw = [''Failed to parse ranking JSON: '' @ message e @ ''. Raw output: '' @ raw]"
  by (simp add: best_def)

text \<open>
  An error raised inside the \<^verbatim>\<open>try\<close> block after the parse, by the conversion of a
  reasoning to a string, takes the same \<^verbatim>\<open>catch\<close>.
\<close>

lemma best_conversion_failure:
  assumes "parse raw = Inr parsed" and "ideasArray parsed = Inr ideas"
    and "validIdeas ideas \<noteq> []" and "\<forall>x\<in>set (validIdeas ideas). score x \<noteq> NaN"
    and "x \<in> set (top_three ideas)" and "get x ''reasoning'' = Some v" and "unprintable v"
  shows "best parse ns raw =
     [''Failed to parse ranking JSON: Cannot convert object to primitive value. Raw output: '' @ raw]"
  using best_of_raises [OF assms(3-7), of ns raw] assms(1,2)
  by (simp add: best_def to_primitive_error_def)

lemma spinOnce_primer_fails:
  "primer_of rt cfg pool = Inl e \<Longrightarrow> spinOnce rt cfg pool tp = ([], Throw e)"
  by (simp add: spinOnce_def)

lemma spinOnce_stage1_fails:
  "primer_of rt cfg pool = Inr primer \<Longrightarrow>
   ask rt cfg (connection_messages primer) (temperature cfg) None = Inl e \<Longrightarrow>
   spinOnce rt cfg pool tp =
     ([Log ([CHR 0xF0, CHR 0x9F, CHR 0x94, CHR 0x8D] @ '' Analyzing mechanism connections...'')],
      Throw e)"
  by (simp add: spinOnce_def)

lemma spinOnce_completion:
  "snd (spinOnce rt cfg pool tp) =
     (case primer_of rt cfg pool of
        Inl e \<Rightarrow> Throw e
      | Inr primer \<Rightarrow>
     (case ask rt cfg (connection_messages primer) (temperature cfg) None of
        Inl e \<Rightarrow> Throw e
      | Inr question \<Rightarrow>
        (case ask rt cfg (ideation_messages tp question primer) (4 / 5) None of
           Inl e \<Rightarrow> Throw e
         | Inr ideas \<Rightarrow>
           (case ask rt cfg (ranking_messages tp ideas) (1 / 5) (Some ''json_object'') of
              Inl e \<Rightarrow> Throw e
            | Inr rankingJSON \<Rightarrow> Return ()))))"
  by (simp add: spinOnce_def Let_def split: sum.splits)

lemma spinOnce_throws_iff:
  "snd (spinOnce rt cfg pool tp) = Throw e \<longleftrightarrow>
     primer_of rt cfg pool = Inl e \<or>
     (\<exists>primer. primer_of rt cfg pool = Inr primer \<and>
       (ask rt cfg (connection_messages primer) (temperature cfg) None = Inl e \<or>
        (\<exists>question.
           ask rt cfg (connection_messages primer) (temperature cfg) None = Inr question \<and>
           (ask rt cfg (ideation_messages tp question primer) (4 / 5) None = Inl e \<or>
            (\<exists>ideas.
               ask rt cfg (ideation_messages tp question primer) (4 / 5) None = Inr ideas \<and>
               ask rt cfg (ranking_messages tp ideas) (1 / 5) (Some ''json_object'') = Inl e)))))"
  by (simp add: spinOnce_completion split: sum.splits)

lemma spinOnce_no_exit: "snd (spinOnce rt cfg pool tp) \<noteq> Exit n"
  by (simp add: spinOnce_completion split: sum.splits)

lemma publish_logs: "ev \<in> set (publish ns b) \<Longrightarrow> \<exists>t. ev = Log t"
  by (auto simp: publish_def)

lemma spinOnce_logs: "ev \<in> set (fst (spinOnce rt cfg pool tp)) \<Longrightarrow> \<exists>t. ev = Log t"
  by (auto simp: spinOnce_def Let_def split: sum.splits if_splits dest: publish_logs)

lemma spinOnce_returns:
  assumes "primer_of rt cfg pool = Inr primer"
    and "ask rt cfg (connection_messages primer) (temperature cfg) None = Inr question"
    and "ask rt cfg (ideation_messages tp question primer) (4 / 5) None = Inr ideas"
    and "ask rt cfg (ranking_messages tp ideas) (1 / 5) (Some ''json_object'') = Inr raw"
  shows "\<exists>out. spinOnce rt cfg pool tp =
           (out @ publish (number_to_string rt) (best (json_parse rt) (number_to_string rt) raw) @
            [Log ''\<newline>''], Return ())"
  using assms by (simp add: spinOnce_def Let_def)

lemma main_loaded:
  assumes "readFile rt (primerFile cfg) = Inr primerText" and "yaml_parse rt primerText = Inr (JArr pool)"
  shows "main rt cfg =
         (case spinOnce rt cfg pool (problem cfg) of
            (out, Throw error) \<Rightarrow>
              (Log (loaded rt (length pool)) # out @ fst (main_catch cfg error), Exit 1)
          | (out, c) \<Rightarrow> (Log (loaded rt (length pool)) # out, c))"
  using assms by (simp add: main_def main_catch_def split: prod.splits completion.splits)

lemma program_pipeline_error:
  assumes "readFile rt (primerFile cfg) = Inr primerText" and "yaml_parse rt primerText = Inr (JArr pool)"
    and "spinOnce rt cfg pool (problem cfg) = (out, Throw e)"
  shows "program rt cfg = (Log (loaded rt (length pool)) # out @ fst (main_catch cfg e), 1)"
  using assms by (simp add: program_def main_loaded)

lemma program_returns:
  assumes "readFile rt (primerFile cfg) = Inr primerText" and "yaml_parse rt primerText = Inr (JArr pool)"
    and "spinOnce rt cfg pool (problem cfg) = (out, Return ())"
  shows "program rt cfg = (Log (loaded rt (length pool)) # out, 0)"
  using assms by (simp add: program_def main_loaded)

text \<open>
  An error raised in \<open>spinOnce\<close> (by the conversion of the sampled entries or by one of
  the three stage calls, see \<open>spinOnce_throws_iff\<close>) is caught by the \<^verbatim>\<open>catch\<close> block of
  \<open>main\<close>, the one that also reports the primer file errors: the program prints one
  message on the error stream and exits with status 1. The handler attached to
  \<^verbatim>\<open>main()\<close> does not run.
\<close>

lemma spinOnce_error_caught_in_main:
  assumes "readFile rt (primerFile cfg) = Inr primerText"
    and "yaml_parse rt primerText = Inr (JArr pool)"
    and "spinOnce rt cfg pool (problem cfg) = (out, Throw e)"
  shows "program rt cfg = (Log (loaded rt (length pool)) # out @ fst (main_catch cfg e), 1) \<and>
         (\<exists>m. fst (main_catch cfg e) = [Err m]) \<and>
         (\<forall>ev\<in>set out. \<exists>t. ev = Log t) \<and>
         (\<forall>ev\<in>set (fst (program rt cfg)). \<forall>t err. ev \<noteq> ErrObj t err)"
proof -
  obtain m where m: "fst (main_catch cfg e) = [Err m]"
    by (simp add: main_catch_def)
  have p: "program rt cfg = (Log (loaded rt (length pool)) # out @ fst (main_catch cfg e), 1)"
    using assms by (rule program_pipeline_error)
  have l: "\<forall>ev\<in>set out. \<exists>t. ev = Log t"
    using spinOnce_logs [of _ rt cfg pool "problem cfg"] by (simp add: assms(3))
  have "\<forall>ev\<in>set (fst (program rt cfg)). \<forall>t err. ev \<noteq> ErrObj t err"
  proof (intro ballI allI)
    fix ev t err assume "ev \<in> set (fst (program rt cfg))"
    then have "ev = Log (loaded rt (length pool)) \<or> ev = Err m \<or> ev \<in> set out"
      by (auto simp: p m)
    with l show "ev \<noteq> ErrObj t err"
      by fastforce
  qed
  with p m l show ?thesis by blast
qed

text \<open>
  C4. When \<^verbatim>\<open>JSON.parse\<close> raises an error on the stage-3 output, the ranker returns the
  single text \<^verbatim>\<open>Failed to parse ranking JSON: \<close>, the message of the error,
  \<^verbatim>\<open>. Raw output: \<close> and the raw output. The run goes on: when the primer file loads,
  the sampled entries can be joined to a text and the three stage calls answer, the
  program prints that text as entry 1 of the best ideas, prints nothing on the error
  stream, and ends with status 0.
\<close>

theorem parse_failure_recovered:
  "(parse raw = Inl e \<longrightarrow>
      best parse ns raw =
        [''Failed to parse ranking JSON: '' @ message e @ ''. Raw output: '' @ raw]) \<and>
   (readFile rt (primerFile cfg) = Inr primerText \<and> yaml_parse rt primerText = Inr (JArr pool) \<and>
    primer_of rt cfg pool = Inr primer \<and>
    ask rt cfg (connection_messages primer) (temperature cfg) None = Inr question \<and>
    ask rt cfg (ideation_messages (problem cfg) question primer) (4 / 5) None = Inr ideas \<and>
    ask rt cfg (ranking_messages (problem cfg) ideas) (1 / 5) (Some ''json_object'') = Inr raw \<and>
    json_parse rt raw = Inl e \<longrightarrow>
      (\<exists>out. program rt cfg =
         (out @
          [Log (''\<newline>'' @ number_to_string rt 1 @ ''. '' @
                ''Failed to parse ranking JSON: '' @ message e @ ''. Raw output: '' @ raw),
           Log ''\<newline>''], 0) \<and>
         (\<forall>ev\<in>set out. \<exists>t. ev = Log t)))"
proof (intro conjI impI)
  assume "parse raw = Inl e"
  then show "best parse ns raw =
        [''Failed to parse ranking JSON: '' @ message e @ ''. Raw output: '' @ raw]"
    by (rule best_parse_failure)
next
  assume h: "readFile rt (primerFile cfg) = Inr primerText \<and> yaml_parse rt primerText = Inr (JArr pool) \<and>
    primer_of rt cfg pool = Inr primer \<and>
    ask rt cfg (connection_messages primer) (temperature cfg) None = Inr question \<and>
    ask rt cfg (ideation_messages (problem cfg) question primer) (4 / 5) None = Inr ideas \<and>
    ask rt cfg (ranking_messages (problem cfg) ideas) (1 / 5) (Some ''json_object'') = Inr raw \<and>
    json_parse rt raw = Inl e"
  let ?d = "''Failed to parse ranking JSON: '' @ message e @ ''. Raw output: '' @ raw"
  have b: "best (json_parse rt) (number_to_string rt) raw = [?d]"
    using h by (simp add: best_parse_failure)
  from h obtain out where
    s: "spinOnce rt cfg pool (problem cfg) =
          (out @ publish (number_to_string rt) (best (json_parse rt) (number_to_string rt) raw) @
           [Log ''\<newline>''], Return ())"
    using spinOnce_returns by blast
  have p: "publish (number_to_string rt) [?d] = [Log (''\<newline>'' @ number_to_string rt 1 @ ''. '' @ ?d)]"
    by (simp add: publish_def)
  let ?out = "Log (loaded rt (length pool)) # out"
  have s': "spinOnce rt cfg pool (problem cfg) =
      (out @ [Log (''\<newline>'' @ number_to_string rt 1 @ ''. '' @ ?d), Log ''\<newline>''], Return ())"
    using s unfolding b p by (simp only: append.simps)
  have "program rt cfg =
      (?out @ [Log (''\<newline>'' @ number_to_string rt 1 @ ''. '' @ ?d), Log ''\<newline>''], 0)"
    using program_returns [OF _ _ s', of primerText] h by (simp only: append.simps)
  moreover have "\<forall>ev\<in>set ?out. \<exists>t. ev = Log t"
  proof
    fix ev assume "ev \<in> set ?out"
    then have "ev = Log (loaded rt (length pool)) \<or> ev \<in> set (fst (spinOnce rt cfg pool (problem cfg)))"
      by (auto simp: s)
    then show "\<exists>t. ev = Log t"
      using spinOnce_logs by blast
  qed
  ultimately show "\<exists>out. program rt cfg =
         (out @
          [Log (''\<newline>'' @ number_to_string rt 1 @ ''. '' @
                ''Failed to parse ranking JSON: '' @ message e @ ''. Raw output: '' @ raw),
           Log ''\<newline>''], 0) \<and>
         (\<forall>ev\<in>set out. \<exists>t. ev = Log t)"
    by (metis append.assoc)
qed

text \<open>
  C7. Loading the primer file: a path that does not exist (\<^verbatim>\<open>readFile\<close> raises an error
  with the code \<^verbatim>\<open>ENOENT\<close>), a text that is not YAML (\<^verbatim>\<open>YAML.parse\<close> raises a
  \<^verbatim>\<open>YAMLParseError\<close>) and a parsed value that is not a sequence each end the program
  with status 1 after one message on the error stream; the three messages are pairwise
  different. When the file holds a sequence, \<open>spinOnce\<close> is called with exactly the
  parsed list.
\<close>

theorem primer_loader_outcomes:
  "(readFile rt (primerFile cfg) = Inl e \<and> code e = Some ''ENOENT'' \<longrightarrow>
      program rt cfg =
        ([Err (''Error: Primer file '' @ [CHR 0x27] @ primerFile cfg @ [CHR 0x27] @ '' not found'')], 1)) \<and>
   (readFile rt (primerFile cfg) = Inr primerText \<and> yaml_parse rt primerText = Inl e \<and>
    name e = ''YAMLParseError'' \<and> code e \<noteq> Some ''ENOENT'' \<longrightarrow>
      program rt cfg =
        ([Err (''Error: Invalid YAML in primer file '' @ [CHR 0x27] @ primerFile cfg @ [CHR 0x27])], 1)) \<and>
   (readFile rt (primerFile cfg) = Inr primerText \<and> yaml_parse rt primerText = Inr v \<and> \<not> isArray (Some v) \<longrightarrow>
      program rt cfg = ([Err ''Error: Primer file should contain a YAML array/sequence''], 1)) \<and>
   (''Error: Primer file '' @ [CHR 0x27] @ primerFile cfg @ [CHR 0x27] @ '' not found'' \<noteq>
      ''Error: Invalid YAML in primer file '' @ [CHR 0x27] @ primerFile cfg @ [CHR 0x27] \<and>
    ''Error: Primer file '' @ [CHR 0x27] @ primerFile cfg @ [CHR 0x27] @ '' not found'' \<noteq>
      ''Error: Primer file should contain a YAML array/sequence'' \<and>
    ''Error: Invalid YAML in primer file '' @ [CHR 0x27] @ primerFile cfg @ [CHR 0x27] \<noteq>
      ''Error: Primer file should contain a YAML array/sequence'') \<and>
   (readFile rt (primerFile cfg) = Inr primerText \<and> yaml_parse rt primerText = Inr (JArr pool) \<longrightarrow>
      main rt cfg =
        (case spinOnce rt cfg pool (problem cfg) of
           (out, Throw error) \<Rightarrow>
             (Log (loaded rt (length pool)) # out @ fst (main_catch cfg error), Exit 1)
         | (out, c) \<Rightarrow> (Log (loaded rt (length pool)) # out, c)))"
proof (intro conjI impI)
  assume "readFile rt (primerFile cfg) = Inl e \<and> code e = Some ''ENOENT''"
  then show "program rt cfg =
        ([Err (''Error: Primer file '' @ [CHR 0x27] @ primerFile cfg @ [CHR 0x27] @ '' not found'')], 1)"
    by (simp add: program_def main_def main_catch_def)
next
  assume "readFile rt (primerFile cfg) = Inr primerText \<and> yaml_parse rt primerText = Inl e \<and>
    name e = ''YAMLParseError'' \<and> code e \<noteq> Some ''ENOENT''"
  then show "program rt cfg =
        ([Err (''Error: Invalid YAML in primer file '' @ [CHR 0x27] @ primerFile cfg @ [CHR 0x27])], 1)"
    by (simp add: program_def main_def main_catch_def)
next
  assume "readFile rt (primerFile cfg) = Inr primerText \<and> yaml_parse rt primerText = Inr v \<and> \<not> isArray (Some v)"
  then show "program rt cfg = ([Err ''Error: Primer file should contain a YAML array/sequence''], 1)"
    by (simp add: program_def main_def)
next
  show "''Error: Primer file '' @ [CHR 0x27] @ primerFile cfg @ [CHR 0x27] @ '' not found'' \<noteq>
      ''Error: Invalid YAML in primer file '' @ [CHR 0x27] @ primerFile cfg @ [CHR 0x27]"
    by simp
  show "''Error: Primer file '' @ [CHR 0x27] @ primerFile cfg @ [CHR 0x27] @ '' not found'' \<noteq>
      ''Error: Primer file should contain a YAML array/sequence''"
    by simp
  show "''Error: Invalid YAML in primer file '' @ [CHR 0x27] @ primerFile cfg @ [CHR 0x27] \<noteq>
      ''Error: Primer file should contain a YAML array/sequence''"
    by simp
next
  assume "readFile rt (primerFile cfg) = Inr primerText \<and> yaml_parse rt primerText = Inr (JArr pool)"
  then show "main rt cfg =
        (case spinOnce rt cfg pool (problem cfg) of
           (out, Throw error) \<Rightarrow>
             (Log (loaded rt (length pool)) # out @ fst (main_catch cfg error), Exit 1)
         | (out, c) \<Rightarrow> (Log (loaded rt (length pool)) # out, c))"
    by (simp add: main_loaded)
qed

section \<open>The examples\<close>

subsection \<open>Sums that are exact\<close>

text \<open>A whole number below \<open>2\<^sup>5\<^sup>3\<close> is a double, so a sum with such a value is not rounded.\<close>

lemma round_double_integer:
  assumes "0 < n" and "n < 2 ^ 53"
  shows "round_double (of_int n) = Num (of_int n)"
proof -
  let ?q = "of_int n :: rat"
  define m where "m = nat (- ulp_exponent ?q)"
  have pos: "0 < ?q" using assms(1) by simp
  have "?q < of_int (2 ^ 53)"
    using assms(2) by (simp only: of_int_less_iff)
  then have lt: "?q < 2 powi 53" by simp
  have "2 powi binade ?q \<le> ?q"
    using pos by (rule binade_lower)
  with lt have b: "(2::rat) powi binade ?q < 2 powi 53" by linarith
  have "binade ?q < 53"
  proof (rule ccontr)
    assume "\<not> binade ?q < 53"
    then have "53 \<le> binade ?q" by simp
    then have "(2::rat) powi 53 \<le> 2 powi binade ?q"
      by (rule power_int_increasing) simp
    with b show False by linarith
  qed
  then have "ulp_exponent ?q \<le> 0"
    by (simp add: ulp_exponent_def)
  then have u: "ulp_exponent ?q = - int m"
    by (simp add: m_def)
  have "(2::rat) ^ 53 \<le> 2 ^ 1024"
    by (rule power_increasing) simp_all
  with lt have ov: "?q < overflow"
    by (simp add: overflow_def)
  have "?q / 2 powi ulp_exponent ?q = of_int (n * 2 ^ m)"
    by (simp add: u power_int_minus divide_inverse)
  with pos ov show ?thesis
    by (rule round_double_exact)
qed

lemma get_entry:
  "get (entry i r p why) ''idea'' = Some (JStr i)"
  "get (entry i r p why) ''relevance'' = Some (JNum (Num r))"
  "get (entry i r p why) ''plausibility'' = Some (JNum (Num p))"
  "get (entry i r p why) ''reasoning'' = Some (JStr why)"
  by (simp_all add: entry_def)

lemma valid_entry: "valid_item (entry i r p why)"
  by (simp add: valid_item_def get_entry) (simp add: entry_def)

lemma score_entry: "score (entry i r p why) = round_double (r + p)"
  by (simp add: score_def get_entry)

lemma scores_ideas0:
  "score (entry ''A'' 6 6 ''ok'') = Num 12"
  "score (entry ''B'' 10 10 ''best'') = Num 20"
  "score (entry ''C'' 2 3 ''weak'') = Num 5"
  "score (entry ''D'' 9 8 ''good'') = Num 17"
  "score (entry ''B'' 10 10 []) = Num 20"
  using round_double_integer [of 12] round_double_integer [of 20]
    round_double_integer [of 5] round_double_integer [of 17]
  by (simp_all add: score_entry)

lemma validIdeas_ideas0: "validIdeas ideas0 = ideas0"
  by (simp add: validIdeas_def ideas0_def valid_entry)

lemma top_three_ideas0:
  "top_three ideas0 =
     [entry ''B'' 10 10 ''best'', entry ''D'' 9 8 ''good'', entry ''A'' 6 6 ''ok'']"
  unfolding top_three_def validIdeas_ideas0
  by (simp add: ideas0_def combined_def scores_ideas0)

lemma formats_ideas0:
  "format_item integer_string (entry ''A'' 6 6 ''ok'') = Inr ''A [Score: 12/20] (ok)''"
  "format_item integer_string (entry ''B'' 10 10 ''best'') = Inr ''B [Score: 20/20] (best)''"
  "format_item integer_string (entry ''D'' 9 8 ''good'') = Inr ''D [Score: 17/20] (good)''"
  "format_item integer_string (entry ''B'' 10 10 []) = Inr ''B [Score: 20/20]''"
  by (simp_all add: format_item_def get_entry scores_ideas0 string_of_def integer_string_def
      decimal.simps)



lemma validIdeas_ideas1: "validIdeas ideas1 = [entry ''A'' 6 6 ''ok'', entry ''B'' 10 10 '''']"
  by (simp add: validIdeas_def ideas1_def valid_entry) (simp add: valid_item_def)


theorem invalid_items_excluded_witness:
  "validIdeas ideas2 = [] \<and>
   best_of integer_string ''raw'' ideas2 =
     Inr [''No valid ideas found in response. Raw output: raw''] \<and>
   validIdeas ideas1 \<noteq> [] \<and>
   best_of integer_string ''raw'' ideas1 =
     best_of integer_string ''raw'' [entry ''A'' 6 6 ''ok'', entry ''B'' 10 10 '''']"
proof -
  have e: "validIdeas ideas2 = []"
    by (simp add: validIdeas_def ideas2_def valid_item_def)
  from invalid_items_excluded [of JNull ideas2 integer_string "''raw''"]
  have "validIdeas ideas2 = [] \<longrightarrow>
      best_of integer_string ''raw'' ideas2 =
        Inr [''No valid ideas found in response. Raw output: '' @ ''raw'']"
    by blast
  with e have "best_of integer_string ''raw'' ideas2 =
      Inr [''No valid ideas found in response. Raw output: raw'']"
    by simp
  moreover from invalid_items_excluded [of JNull ideas1 integer_string "''raw''"]
  have "best_of integer_string ''raw'' ideas1 = best_of integer_string ''raw'' (validIdeas ideas1)"
    by blast
  then have "best_of integer_string ''raw'' ideas1 =
     best_of integer_string ''raw'' [entry ''A'' 6 6 ''ok'', entry ''B'' 10 10 '''']"
    by (simp only: validIdeas_ideas1)
  ultimately show ?thesis using e by (simp add: validIdeas_ideas1)
qed

subsection \<open>Conversions that raise, and sums that are rounded\<close>

text \<open>
  A reasoning that is an object with the key \<^verbatim>\<open>toString\<close>: the template raises a
  TypeError inside the \<^verbatim>\<open>try\<close> block, and the result is the entry of the \<^verbatim>\<open>catch\<close>.
\<close>

lemma best_of_ideas3: "best_of ns raw ideas3 = Inl to_primitive_error"
  by (simp add: best_of_def ranked_def validIdeas_def valid_item_def ideas3_def js_sort_def
      slice0_def format_item_def string_of_def)

lemma best_ideas3:
  "parse raw = Inr (JArr ideas3) \<Longrightarrow>
   best parse ns raw =
     [''Failed to parse ranking JSON: Cannot convert object to primitive value. Raw output: '' @ raw]"
  by (simp add: best_def ideasArray_list best_of_ideas3 to_primitive_error_def)

text \<open>
  The marks 0.1 and 0.2 add up to the double 0.30000000000000004, the mark of the second
  entry: the two entries are equal in the sort and keep their order.
\<close>

lemma ulp_exponent_three_tenths:
  "ulp_exponent (10808639105689191 / 36028797018963968) = - 54"
  "ulp_exponent (1351079888211149 / 4503599627370496) = - 54"
  by (simp_all add: ulp_exponent_def binade_def lg_down.simps)

lemma nearest_three_tenths:
  "nearest (10808639105689191 / 36028797018963968) = 1351079888211149 / 4503599627370496"
proof -
  have "(10808639105689191 / 36028797018963968 :: rat) / 2 powi (- 54) = 10808639105689191 / 2"
    by simp
  moreover have f: "\<lfloor>10808639105689191 / 2 :: rat\<rfloor> = 5404319552844595"
    by (rule floor_unique) simp_all
  have "rne (10808639105689191 / 2) = 5404319552844596"
    by (simp add: rne_def Let_def f)
  ultimately show ?thesis
    by (simp add: nearest_def ulp_exponent_three_tenths)
qed

lemma one_less_overflow: "1 < overflow"
  unfolding overflow_def by (rule one_less_power) simp_all

lemma scores_ideas4:
  "score (entry ''A'' (3602879701896397 / 36028797018963968)
            (3602879701896397 / 18014398509481984) ''sum'') =
     Num (1351079888211149 / 4503599627370496)"
  "score (entry ''C'' (1351079888211149 / 4503599627370496) 0 ''one'') =
     Num (1351079888211149 / 4503599627370496)"
proof -
  have "round_double (10808639105689191 / 36028797018963968) =
      Num (1351079888211149 / 4503599627370496)"
    using one_less_overflow by (simp add: round_double_def nearest_three_tenths)
  then show "score (entry ''A'' (3602879701896397 / 36028797018963968)
            (3602879701896397 / 18014398509481984) ''sum'') =
     Num (1351079888211149 / 4503599627370496)"
    by (simp add: score_entry)
  have "(1351079888211149 / 4503599627370496 :: rat) /
          2 powi ulp_exponent (1351079888211149 / 4503599627370496) =
        of_int 5404319552844596"
    unfolding ulp_exponent_three_tenths by simp
  with _ _ have "round_double (1351079888211149 / 4503599627370496) =
      Num (1351079888211149 / 4503599627370496)"
    by (rule round_double_exact) (use one_less_overflow in simp_all)
  then show "score (entry ''C'' (1351079888211149 / 4503599627370496) 0 ''one'') =
     Num (1351079888211149 / 4503599627370496)"
    by (simp add: score_entry)
qed

lemma best_of_ideas4:
  "best_of ns raw ideas4 =
     Inr [''A [Score: '' @ ns (1351079888211149 / 4503599627370496) @ ''/20] (sum)'',
          ''C [Score: '' @ ns (1351079888211149 / 4503599627370496) @ ''/20] (one)'']"
proof -
  have v: "validIdeas ideas4 = ideas4"
    by (simp add: validIdeas_def ideas4_def valid_entry)
  have ne: "validIdeas ideas4 \<noteq> []"
    unfolding v by (simp add: ideas4_def)
  have nan: "\<forall>x\<in>set (validIdeas ideas4). score x \<noteq> NaN"
    unfolding v by (simp add: ideas4_def scores_ideas4)
  have "top_three ideas4 = ideas4"
    unfolding top_three_def v by (simp add: ideas4_def combined_def scores_ideas4)
  then have "map (format_item ns) (top_three ideas4) =
      map Inr [''A [Score: '' @ ns (1351079888211149 / 4503599627370496) @ ''/20] (sum)'',
               ''C [Score: '' @ ns (1351079888211149 / 4503599627370496) @ ''/20] (one)'']"
    by (simp add: ideas4_def format_item_def get_entry scores_ideas4 string_of_def)
  then show ?thesis
    unfolding best_of_top_three [OF ne nan] by (simp only: collect_map_Inr)
qed

text \<open>A sum of \<open>2 ^ 1024\<close> or more is \<open>Infinity\<close>, which prints as such.\<close>

lemma round_double_overflow:
  assumes "overflow \<le> q"
  shows "round_double q = PInf"
proof -
  let ?b = "binade q" and ?u = "ulp_exponent q"
  have pos: "0 < q"
    using assms overflow_pos by linarith
  have "q < 2 powi (?b + 1)"
    using pos by (rule binade_upper)
  with assms have "(2::rat) powi 1024 < 2 powi (?b + 1)"
    by (simp add: overflow_def)
  have b: "1024 \<le> ?b"
  proof (rule ccontr)
    assume "\<not> 1024 \<le> ?b"
    then have "?b + 1 \<le> 1024" by simp
    then have "(2::rat) powi (?b + 1) \<le> 2 powi 1024"
      by (rule power_int_increasing) simp
    with \<open>(2::rat) powi 1024 < 2 powi (?b + 1)\<close> show False by linarith
  qed
  then have u: "?u = ?b - 52"
    by (simp add: ulp_exponent_def)
  have p: "(0::rat) < 2 powi ?u"
    by simp
  define k :: int where "k = 52"
  have "(2::rat) powi (k + ?u) = 2 powi k * 2 powi ?u"
    by (rule power_int_add) simp
  then have split: "(2::rat) powi ?b = 2 powi k * 2 powi ?u"
    by (simp add: u k_def)
  have "2 powi ?b \<le> q"
    using pos by (rule binade_lower)
  with split have "(2::rat) powi k * 2 powi ?u \<le> q"
    by (simp only:)
  with p have "(2::rat) powi k \<le> q / 2 powi ?u"
    by (simp only: pos_le_divide_eq)
  then have "of_int (2 ^ 52) \<le> q / 2 powi ?u"
    by (simp add: k_def)
  then have "2 ^ 52 \<le> \<lfloor>q / 2 powi ?u\<rfloor>"
    by (simp only: le_floor_iff)
  with rne_ge_floor [of "q / 2 powi ?u"] have "2 ^ 52 \<le> rne (q / 2 powi ?u)"
    by linarith
  then have "(of_int (2 ^ 52) :: rat) \<le> of_int (rne (q / 2 powi ?u))"
    by (simp only: of_int_le_iff)
  then have "(2::rat) powi k \<le> of_int (rne (q / 2 powi ?u))"
    by (simp add: k_def)
  with p have "(2::rat) powi k * 2 powi ?u \<le> nearest q"
    unfolding nearest_def by (simp only: mult_le_cancel_right_pos)
  with split have "2 powi ?b \<le> nearest q"
    by (simp only:)
  moreover from b have "(2::rat) powi 1024 \<le> 2 powi ?b"
    by (rule power_int_increasing) simp
  ultimately have "overflow \<le> nearest q"
    by (simp add: overflow_def)
  with pos show ?thesis
    by (simp add: round_double_def)
qed

lemma format_overflow:
  "format_item ns (entry ''big'' (2 ^ 1023) (2 ^ 1023) []) = Inr ''big [Score: Infinity/20]''"
proof -
  have "overflow \<le> 2 ^ 1023 + 2 ^ 1023"
    by (simp add: overflow_def)
  then have "score (entry ''big'' (2 ^ 1023) (2 ^ 1023) []) = PInf"
    unfolding score_entry by (rule round_double_overflow)
  then show ?thesis
    by (simp add: format_item_def get_entry string_of_def)
qed

text \<open>
  A valid entry whose sum is \<open>NaN\<close>: the marks \<^verbatim>\<open>1e999\<close> and \<^verbatim>\<open>-1e999\<close> parse to the two
  infinities, which pass the filter.
\<close>

lemma valid_entry_nan_sum:
  "valid_item (JObj [(''idea'', JStr ''x''), (''relevance'', JNum PInf),
                     (''plausibility'', JNum NInf)]) \<and>
   score (JObj [(''idea'', JStr ''x''), (''relevance'', JNum PInf),
                (''plausibility'', JNum NInf)]) = NaN"
  by (simp add: valid_item_def score_def)

subsection \<open>Runs of the program\<close>

lemma sample_pool0:
  "sample (\<lambda>i. 1 / (of_nat i + 2)) [JStr ''gecko'', JStr ''bees'', JStr ''tcp''] 2 =
     [JStr ''tcp'', JStr ''bees'']"
  by (simp add: sample_def tag_random_def js_sort_def slice0_def by_r_def upt_rec)

lemma primer_of_rt0:
  "math_random rt = (\<lambda>i. 1 / (of_nat i + 2)) \<Longrightarrow>
   primer_of rt cfg0 [JStr ''gecko'', JStr ''bees'', JStr ''tcp''] =
     Inr (''tcp\<newline>'' @ bullet @ '' bees'')"
  by (simp add: primer_of_def cfg0_def sample_pool0 join_def)

lemma spinOnce_rt_net:
  "spinOnce rt_net cfg0 [JStr ''gecko'', JStr ''bees'', JStr ''tcp''] (problem cfg0) =
     ([Log ([CHR 0xF0, CHR 0x9F, CHR 0x94, CHR 0x8D] @ '' Analyzing mechanism connections...'')],
      Throw connection_error)"
proof (rule spinOnce_stage1_fails)
  show "primer_of rt_net cfg0 [JStr ''gecko'', JStr ''bees'', JStr ''tcp''] =
      Inr (''tcp\<newline>'' @ bullet @ '' bees'')"
    by (rule primer_of_rt0) (simp add: rt_net_def rt0_def)
  show "ask rt_net cfg0 (connection_messages (''tcp\<newline>'' @ bullet @ '' bees''))
      (temperature cfg0) None = Inl connection_error"
    by (simp add: ask_def rt_net_def rt0_def)
qed

text \<open>
  C8. The specification has an error raised anywhere in the pipeline reach the handler
  attached to \<^verbatim>\<open>main()\<close>, which prints \<^verbatim>\<open>Idea-mill encountered an error:\<close> and the
  error. In the program the call of \<open>spinOnce\<close> stands inside the \<^verbatim>\<open>try\<close> block of
  \<open>main\<close> that loads the primer file: a connection error in the first stage call is
  reported by its \<^verbatim>\<open>catch\<close> block as an error of reading the primer file, the program
  exits with status 1, and the handler attached to \<^verbatim>\<open>main()\<close> prints nothing.
\<close>

theorem network_error_not_at_top_level:
  "program rt_net cfg0 =
     ([Log (loaded rt_net 3),
       Log ([CHR 0xF0, CHR 0x9F, CHR 0x94, CHR 0x8D] @ '' Analyzing mechanism connections...''),
       Err ''Error reading primer file: Connection error.''], 1) \<and>
   ErrObj top_level_text connection_error \<notin> set (fst (program rt_net cfg0))"
proof -
  have f: "readFile rt_net (primerFile cfg0) = Inr ''- gecko\<newline>- bees\<newline>- tcp''"
    by (simp add: rt_net_def rt0_def cfg0_def)
  have y: "yaml_parse rt_net ''- gecko\<newline>- bees\<newline>- tcp'' =
      Inr (JArr [JStr ''gecko'', JStr ''bees'', JStr ''tcp''])"
    by (simp add: rt_net_def rt0_def)
  have "program rt_net cfg0 =
     ([Log (loaded rt_net 3),
       Log ([CHR 0xF0, CHR 0x9F, CHR 0x94, CHR 0x8D] @ '' Analyzing mechanism connections...''),
       Err ''Error reading primer file: Connection error.''], 1)"
    using program_pipeline_error [OF f y spinOnce_rt_net]
    by (simp add: main_catch_def connection_error_def numeral_3_eq_3)
  then show ?thesis by simp
qed

text \<open>
  A primer file whose second entry is a mapping with the key \<^verbatim>\<open>toString\<close>: joining the
  sampled entries raises a TypeError before the first stage, which the same \<^verbatim>\<open>catch\<close>
  block reports.
\<close>

lemma primer_of_rt_mapping:
  "primer_of rt_mapping cfg0 [JStr ''gecko'', JObj [(''toString'', JNum (Num 1))]] =
     Inl to_primitive_error"
  by (simp add: primer_of_def cfg0_def rt_mapping_def rt0_def sample_def tag_random_def
      js_sort_def slice0_def by_r_def upt_rec join_def)

lemma program_rt_mapping:
  "program rt_mapping cfg0 =
     ([Log (loaded rt_mapping 2),
       Err ''Error reading primer file: Cannot convert object to primitive value''], 1)"
proof -
  have f: "readFile rt_mapping (primerFile cfg0) = Inr ''- gecko\<newline>- bees\<newline>- tcp''"
    by (simp add: rt_mapping_def rt0_def cfg0_def)
  have y: "yaml_parse rt_mapping ''- gecko\<newline>- bees\<newline>- tcp'' =
      Inr (JArr [JStr ''gecko'', JObj [(''toString'', JNum (Num 1))]])"
    by (simp add: rt_mapping_def)
  show ?thesis
    using program_pipeline_error [OF f y spinOnce_primer_fails [OF primer_of_rt_mapping]]
    by (simp add: main_catch_def to_primitive_error_def numeral_2_eq_2)
qed

theorem parse_failure_recovered_witness:
  "json_parse rt_truncated ''[{'' = Inl syntax_error \<and>
   best (json_parse rt_truncated) integer_string ''[{'' =
     [''Failed to parse ranking JSON: Unexpected end of JSON input. Raw output: [{''] \<and>
   snd (program rt_truncated cfg0) = 0 \<and>
   Log ''\<newline>1. Failed to parse ranking JSON: Unexpected end of JSON input. Raw output: [{''
     \<in> set (fst (program rt_truncated cfg0))"
proof -
  note t = parse_failure_recovered [where parse = "json_parse rt_truncated" and raw = "''[{''"
      and e = syntax_error and ns = integer_string and rt = rt_truncated and cfg = cfg0
      and primerText = "''- gecko\<newline>- bees\<newline>- tcp''"
      and pool = "[JStr ''gecko'', JStr ''bees'', JStr ''tcp'']"
      and primer = "''tcp\<newline>'' @ bullet @ '' bees''"
      and question = "''an observation''" and ideas = "''five ideas''"]
  have j: "json_parse rt_truncated ''[{'' = Inl syntax_error"
    by (simp add: rt_truncated_def rt0_def ranking0_def)
  have f: "readFile rt_truncated (primerFile cfg0) = Inr ''- gecko\<newline>- bees\<newline>- tcp''"
    by (simp add: rt_truncated_def rt0_def cfg0_def)
  have y: "yaml_parse rt_truncated ''- gecko\<newline>- bees\<newline>- tcp'' =
      Inr (JArr [JStr ''gecko'', JStr ''bees'', JStr ''tcp''])"
    by (simp add: rt_truncated_def rt0_def)
  have pr: "primer_of rt_truncated cfg0 [JStr ''gecko'', JStr ''bees'', JStr ''tcp''] =
      Inr (''tcp\<newline>'' @ bullet @ '' bees'')"
    by (rule primer_of_rt0) (simp add: rt_truncated_def rt0_def)
  have a1: "ask rt_truncated cfg0 (connection_messages (''tcp\<newline>'' @ bullet @ '' bees''))
      (temperature cfg0) None = Inr ''an observation''"
    by (simp add: ask_def rt_truncated_def rt0_def cfg0_def)
  have a2: "ask rt_truncated cfg0
      (ideation_messages (problem cfg0) ''an observation'' (''tcp\<newline>'' @ bullet @ '' bees''))
      (4 / 5) None = Inr ''five ideas''"
    by (simp add: ask_def rt_truncated_def rt0_def)
  have a3: "ask rt_truncated cfg0 (ranking_messages (problem cfg0) ''five ideas'') (1 / 5)
      (Some ''json_object'') = Inr ''[{''"
    by (simp add: ask_def rt_truncated_def rt0_def)
  have n: "number_to_string rt_truncated 1 = ''1''"
    by (simp add: rt_truncated_def rt0_def integer_string_def decimal.simps)
  from t j have b: "best (json_parse rt_truncated) integer_string ''[{'' =
      [''Failed to parse ranking JSON: '' @ message syntax_error @ ''. Raw output: '' @ ''[{'']"
    by blast
  from t j f y pr a1 a2 a3 obtain out where
    p: "program rt_truncated cfg0 =
         (out @
          [Log (''\<newline>'' @ number_to_string rt_truncated 1 @ ''. '' @
                ''Failed to parse ranking JSON: '' @ message syntax_error @ ''. Raw output: '' @ ''[{''),
           Log ''\<newline>''], 0)"
    by blast
  from b have "best (json_parse rt_truncated) integer_string ''[{'' =
     [''Failed to parse ranking JSON: Unexpected end of JSON input. Raw output: [{'']"
    by (simp add: syntax_error_def)
  moreover from p have "snd (program rt_truncated cfg0) = 0"
    by simp
  moreover from p have
    "Log ''\<newline>1. Failed to parse ranking JSON: Unexpected end of JSON input. Raw output: [{''
       \<in> set (fst (program rt_truncated cfg0))"
    by (simp add: n syntax_error_def)
  ultimately show ?thesis using j by blast
qed

lemma best_of_ideas0:
  "best_of integer_string raw ideas0 =
     Inr [''B [Score: 20/20] (best)'', ''D [Score: 17/20] (good)'', ''A [Score: 12/20] (ok)'']"
proof -
  have ne: "validIdeas ideas0 \<noteq> []"
    unfolding validIdeas_ideas0 by (simp add: ideas0_def)
  have nan: "\<forall>x\<in>set (validIdeas ideas0). score x \<noteq> NaN"
    unfolding validIdeas_ideas0 by (simp add: ideas0_def scores_ideas0)
  have "map (format_item integer_string) (top_three ideas0) =
      map Inr [''B [Score: 20/20] (best)'', ''D [Score: 17/20] (good)'', ''A [Score: 12/20] (ok)'']"
    by (simp add: top_three_ideas0 formats_ideas0)
  then show ?thesis
    unfolding best_of_top_three [OF ne nan] by (simp only: collect_map_Inr)
qed

lemma best_ranking0:
  "best (json_parse rt0) integer_string ranking0 =
     [''B [Score: 20/20] (best)'', ''D [Score: 17/20] (good)'', ''A [Score: 12/20] (ok)'']"
  by (simp add: best_def rt0_def ideasArray_list best_of_ideas0)

lemma publish_three:
  "publish integer_string [a, b, c] =
     [Log (''\<newline>1. '' @ a), Log (''\<newline>2. '' @ b), Log (''\<newline>3. '' @ c)]"
  by (simp add: publish_def enumerate_eq_zip upt_rec integer_string_def decimal.simps)

lemma spinOnce_rt0:
  "spinOnce rt0 cfg0 [JStr ''gecko'', JStr ''bees'', JStr ''tcp''] (problem cfg0) =
     ([Log ([CHR 0xF0, CHR 0x9F, CHR 0x94, CHR 0x8D] @ '' Analyzing mechanism connections...''),
       Log ([CHR 0xF0, CHR 0x9F, CHR 0x92, CHR 0xAD] @ '' Generating solution ideas...''),
       Log ([CHR 0xF0, CHR 0x9F, CHR 0x93, CHR 0x8A] @ '' Ranking and evaluating ideas...''),
       Log (''\<newline>'' @ [CHR 0xF0, CHR 0x9F, CHR 0x92, CHR 0xA1] @ '' Best ideas:''),
       Log ''\<newline>1. B [Score: 20/20] (best)'',
       Log ''\<newline>2. D [Score: 17/20] (good)'',
       Log ''\<newline>3. A [Score: 12/20] (ok)'',
       Log ''\<newline>''],
      Return ())"
proof -
  have c: "create rt0 = (\<lambda>req. if response_format req = Some ''json_object'' then Inr ranking0
                       else if req_temperature req = 4 / 5 then Inr ''five ideas''
                       else Inr ''an observation'')"
    and n: "number_to_string rt0 = integer_string"
    and v: "\<not> verbose cfg0" and t: "temperature cfg0 = 7 / 10"
    by (simp_all add: rt0_def cfg0_def)
  have pr: "primer_of rt0 cfg0 [JStr ''gecko'', JStr ''bees'', JStr ''tcp''] =
      Inr (''tcp\<newline>'' @ bullet @ '' bees'')"
    by (rule primer_of_rt0) (simp add: rt0_def)
  show ?thesis
    by (simp add: spinOnce_def pr ask_def c n v t best_ranking0 publish_three)
qed

theorem primer_loader_outcomes_witness:
  "program rt0 (cfg0\<lparr>primerFile := ''nope''\<rparr>) =
     ([Err (''Error: Primer file '' @ [CHR 0x27] @ ''nope'' @ [CHR 0x27] @ '' not found'')], 1) \<and>
   program rt_bad_yaml cfg0 =
     ([Err (''Error: Invalid YAML in primer file '' @ [CHR 0x27] @ ''./primer.yaml'' @ [CHR 0x27])], 1) \<and>
   program rt_scalar cfg0 = ([Err ''Error: Primer file should contain a YAML array/sequence''], 1) \<and>
   main rt0 cfg0 =
     ([Log (loaded rt0 3),
       Log ([CHR 0xF0, CHR 0x9F, CHR 0x94, CHR 0x8D] @ '' Analyzing mechanism connections...''),
       Log ([CHR 0xF0, CHR 0x9F, CHR 0x92, CHR 0xAD] @ '' Generating solution ideas...''),
       Log ([CHR 0xF0, CHR 0x9F, CHR 0x93, CHR 0x8A] @ '' Ranking and evaluating ideas...''),
       Log (''\<newline>'' @ [CHR 0xF0, CHR 0x9F, CHR 0x92, CHR 0xA1] @ '' Best ideas:''),
       Log ''\<newline>1. B [Score: 20/20] (best)'',
       Log ''\<newline>2. D [Score: 17/20] (good)'',
       Log ''\<newline>3. A [Score: 12/20] (ok)'',
       Log ''\<newline>''],
      Return ())"
proof -
  have 1: "readFile rt0 (primerFile (cfg0\<lparr>primerFile := ''nope''\<rparr>)) = Inl enoent \<and>
      code enoent = Some ''ENOENT''"
    by (simp add: rt0_def enoent_def)
  have 2: "readFile rt_bad_yaml (primerFile cfg0) = Inr ''[gecko'' \<and>
      yaml_parse rt_bad_yaml ''[gecko'' = Inl yaml_error \<and>
      name yaml_error = ''YAMLParseError'' \<and> code yaml_error \<noteq> Some ''ENOENT''"
    by (simp add: rt_bad_yaml_def rt0_def yaml_error_def)
  have 3: "readFile rt_scalar (primerFile cfg0) = Inr ''gecko'' \<and>
      yaml_parse rt_scalar ''gecko'' = Inr (JStr ''gecko'') \<and> \<not> isArray (Some (JStr ''gecko''))"
    by (simp add: rt_scalar_def rt0_def)
  have 4: "readFile rt0 (primerFile cfg0) = Inr ''- gecko\<newline>- bees\<newline>- tcp'' \<and>
      yaml_parse rt0 ''- gecko\<newline>- bees\<newline>- tcp'' =
        Inr (JArr [JStr ''gecko'', JStr ''bees'', JStr ''tcp''])"
    by (simp add: rt0_def cfg0_def)
  from 1 primer_loader_outcomes [where rt = rt0 and cfg = "cfg0\<lparr>primerFile := ''nope''\<rparr>"
      and e = enoent]
  have "program rt0 (cfg0\<lparr>primerFile := ''nope''\<rparr>) =
      ([Err (''Error: Primer file '' @ [CHR 0x27] @
             primerFile (cfg0\<lparr>primerFile := ''nope''\<rparr>) @ [CHR 0x27] @ '' not found'')], 1)"
    by blast
  then have a: "program rt0 (cfg0\<lparr>primerFile := ''nope''\<rparr>) =
     ([Err (''Error: Primer file '' @ [CHR 0x27] @ ''nope'' @ [CHR 0x27] @ '' not found'')], 1)"
    by simp
  from 2 primer_loader_outcomes [where rt = rt_bad_yaml and cfg = cfg0 and e = yaml_error
      and primerText = "''[gecko''"]
  have "program rt_bad_yaml cfg0 =
      ([Err (''Error: Invalid YAML in primer file '' @ [CHR 0x27] @ primerFile cfg0 @ [CHR 0x27])], 1)"
    by blast
  then have b: "program rt_bad_yaml cfg0 =
      ([Err (''Error: Invalid YAML in primer file '' @ [CHR 0x27] @ ''./primer.yaml'' @ [CHR 0x27])], 1)"
    by (simp add: cfg0_def)
  from 3 primer_loader_outcomes [where rt = rt_scalar and cfg = cfg0
      and primerText = "''gecko''" and v = "JStr ''gecko''"]
  have c: "program rt_scalar cfg0 =
      ([Err ''Error: Primer file should contain a YAML array/sequence''], 1)"
    by blast
  from 4 primer_loader_outcomes [where rt = rt0 and cfg = cfg0
      and primerText = "''- gecko\<newline>- bees\<newline>- tcp''"
      and pool = "[JStr ''gecko'', JStr ''bees'', JStr ''tcp'']"]
  have "main rt0 cfg0 =
        (case spinOnce rt0 cfg0 [JStr ''gecko'', JStr ''bees'', JStr ''tcp''] (problem cfg0) of
           (out, Throw error) \<Rightarrow>
             (Log (loaded rt0 (length [JStr ''gecko'', JStr ''bees'', JStr ''tcp''])) # out @
              fst (main_catch cfg0 error), Exit 1)
         | (out, c) \<Rightarrow>
             (Log (loaded rt0 (length [JStr ''gecko'', JStr ''bees'', JStr ''tcp''])) # out, c))"
    by blast
  then have d: "main rt0 cfg0 =
     ([Log (loaded rt0 3),
       Log ([CHR 0xF0, CHR 0x9F, CHR 0x94, CHR 0x8D] @ '' Analyzing mechanism connections...''),
       Log ([CHR 0xF0, CHR 0x9F, CHR 0x92, CHR 0xAD] @ '' Generating solution ideas...''),
       Log ([CHR 0xF0, CHR 0x9F, CHR 0x93, CHR 0x8A] @ '' Ranking and evaluating ideas...''),
       Log (''\<newline>'' @ [CHR 0xF0, CHR 0x9F, CHR 0x92, CHR 0xA1] @ '' Best ideas:''),
       Log ''\<newline>1. B [Score: 20/20] (best)'',
       Log ''\<newline>2. D [Score: 17/20] (good)'',
       Log ''\<newline>3. A [Score: 12/20] (ok)'',
       Log ''\<newline>''],
      Return ())"
    by (simp add: spinOnce_rt0 numeral_3_eq_3)
  from a b c d show ?thesis by blast
qed

end
